theory Spec2Isabelle
  imports Complex_Main "HOL-Library.Product_Lexorder"
begin

section \<open>Celda: one position of the board\<close>

text \<open>
  The value of a cell is a JavaScript string or null.  The oracle only ever answers with
  the empty string, a decimal digit string or the mine marker, so the model has one
  constructor for each: \<open>Nulo\<close> is \<open>null\<close>, \<open>Vacio\<close> is \<open>''\<close>,
  \<open>Digito n\<close> is the decimal string of \<open>n\<close> and \<open>MinaM\<close> is \<open>'M'\<close>.
  JavaScript numbers are modelled as reals (counters and coordinates as integers).
\<close>

datatype valor = Nulo | Vacio | Digito nat | MinaM

record probabilidades =
  probabilidadMina :: real
  probabilidadSegura :: real
  confianza :: real
  origen :: string
  calculosAnteriores :: "(real \<times> real \<times> real \<times> string) list"

record restriccion =
  celdaOrigen :: "int \<times> int"
  valorR :: int
  banderasColocadasR :: int
  minasRestantes :: int
  celdasAfectadas :: "(int \<times> int) list"

record celda =
  fila :: int
  columna :: int
  descubierta :: bool
  tieneBandera :: bool
  valor :: valor
  restricciones :: "restriccion list"
  probabilidades :: probabilidades
  esEsquina :: bool
  esBorde :: bool
  distanciaBorde :: int

definition probabilidadesIniciales :: probabilidades where
  "probabilidadesIniciales =
     \<lparr>probabilidadMina = 0.5, probabilidadSegura = 0.5, confianza = 0,
      origen = ''inicial'', calculosAnteriores = []\<rparr>"

definition nuevaCelda :: "int \<Rightarrow> int \<Rightarrow> celda" where
  "nuevaCelda f c =
     \<lparr>fila = f, columna = c, descubierta = False, tieneBandera = False, valor = Nulo,
      restricciones = [], probabilidades = probabilidadesIniciales,
      esEsquina = False, esBorde = False, distanciaBorde = 0\<rparr>"

text \<open>\<open>Celda.establecerValor\<close>: the cell becomes revealed and certain.\<close>

definition establecerValor :: "valor \<Rightarrow> celda \<Rightarrow> celda" where
  "establecerValor v c =
     c\<lparr>valor := v, descubierta := True,
       probabilidades := (probabilidades c)
         \<lparr>probabilidadMina := (if v = MinaM then 1 else 0),
          probabilidadSegura := (if v = MinaM then 0 else 1),
          confianza := 1, origen := ''revelada''\<rparr>\<rparr>"

text \<open>\<open>Celda.establecerBandera\<close>: only placing a flag touches the estimate.\<close>

definition establecerBanderaCelda :: "bool \<Rightarrow> celda \<Rightarrow> celda" where
  "establecerBanderaCelda b c =
     c\<lparr>tieneBandera := b,
       probabilidades := (probabilidades c)
         \<lparr>probabilidadMina := (if b then 1 else probabilidadMina (probabilidades c)),
          probabilidadSegura := (if b then 0 else probabilidadSegura (probabilidades c)),
          confianza := (if b then 1 else confianza (probabilidades c)),
          origen := (if b then ''bandera'' else origen (probabilidades c))\<rparr>\<rparr>"

text \<open>
  The table \<open>jerarquia\<close> of \<open>esOrigenMasConfiable\<close>; a tag that is not in the table
  ranks 0 (the \<open>|| 0\<close> of the source).
\<close>

definition jerarquia :: "string \<Rightarrow> nat" where
  "jerarquia og =
     (if og = ''revelada'' then 10
      else if og = ''bandera'' then 9
      else if og = ''analisis100'' then 8
      else if og = ''restricciones'' then 7
      else if og = ''patron'' then 6
      else if og = ''subconjunto'' then 5
      else if og = ''probabilidad'' then 4
      else if og = ''memoria'' then 3
      else if og = ''estrategia'' then 2
      else if og = ''inicial'' then 1
      else 0)"

definition esOrigenMasConfiable :: "string \<Rightarrow> string \<Rightarrow> bool" where
  "esOrigenMasConfiable origenNuevo origenActual \<longleftrightarrow>
     jerarquia origenNuevo > jerarquia origenActual"

definition debeActualizar :: "real \<Rightarrow> string \<Rightarrow> celda \<Rightarrow> bool" where
  "debeActualizar conf orig c \<longleftrightarrow>
     conf > confianza (probabilidades c) \<or>
     (conf = confianza (probabilidades c) \<and>
      esOrigenMasConfiable orig (origen (probabilidades c)))"

definition actualizarProbabilidades :: "real \<Rightarrow> real \<Rightarrow> string \<Rightarrow> celda \<Rightarrow> celda" where
  "actualizarProbabilidades probMina conf orig c =
     (if debeActualizar conf orig c then
        (let p = probabilidades c;
             h = calculosAnteriores p @
                   [(probabilidadMina p, probabilidadSegura p, confianza p, origen p)]
         in c\<lparr>probabilidades :=
                \<lparr>probabilidadMina = probMina, probabilidadSegura = 1 - probMina,
                 confianza = conf, origen = orig,
                 calculosAnteriores = (if length h > 5 then tl h else h)\<rparr>\<rparr>)
      else c)"

definition tieneValorNumerico :: "celda \<Rightarrow> bool" where
  "tieneValorNumerico c \<longleftrightarrow>
     descubierta c \<and> (case valor c of Digito n \<Rightarrow> True | _ \<Rightarrow> False)"

definition obtenerValorNumerico :: "celda \<Rightarrow> int option" where
  "obtenerValorNumerico c =
     (case valor c of
        Vacio \<Rightarrow> Some 0
      | Digito n \<Rightarrow> (if n = 0 then Some 0
                     else if tieneValorNumerico c then Some (int n) else None)
      | _ \<Rightarrow> None)"

definition es100PorCientoSegura :: "celda \<Rightarrow> bool" where
  "es100PorCientoSegura c \<longleftrightarrow>
     probabilidadSegura (probabilidades c) = 1 \<and> confianza (probabilidades c) = 1"

definition es100PorCientoMina :: "celda \<Rightarrow> bool" where
  "es100PorCientoMina c \<longleftrightarrow>
     probabilidadMina (probabilidades c) = 1 \<and> confianza (probabilidades c) = 1"

section \<open>Tablero: the grid\<close>

datatype cambio = CambioInicial | CambioDescubierta int int valor | CambioBandera int int bool

record tablero =
  filas :: nat
  columnas :: nat
  celdas :: "celda list list"
  contadorDescubiertas :: int
  contadorBanderas :: int
  restriccionesActualizadas :: bool
  ultimoCambio :: cambio

text \<open>\<open>marcarCeldasEspeciales\<close> for one cell: corner, edge and distance to the edge.\<close>

definition marcarCeldaEspecial :: "nat \<Rightarrow> nat \<Rightarrow> celda \<Rightarrow> celda" where
  "marcarCeldaEspecial nf nc c =
     (let f = fila c; k = columna c
      in c\<lparr>esEsquina := ((f = 0 \<or> f = int nf - 1) \<and> (k = 0 \<or> k = int nc - 1)),
           esBorde := (f = 0 \<or> f = int nf - 1 \<or> k = 0 \<or> k = int nc - 1),
           distanciaBorde := min (min f (int nf - 1 - f)) (min k (int nc - 1 - k))\<rparr>)"

definition inicializarTablero :: "nat \<Rightarrow> nat \<Rightarrow> celda list list" where
  "inicializarTablero nf nc =
     map (\<lambda>f. map (\<lambda>k. marcarCeldaEspecial nf nc (nuevaCelda (int f) (int k))) [0..<nc])
         [0..<nf]"

definition nuevoTablero :: "nat \<Rightarrow> nat \<Rightarrow> tablero" where
  "nuevoTablero nf nc =
     \<lparr>filas = nf, columnas = nc, celdas = inicializarTablero nf nc,
      contadorDescubiertas = 0, contadorBanderas = 0,
      restriccionesActualizadas = False, ultimoCambio = CambioInicial\<rparr>"

definition esPosicionValida :: "tablero \<Rightarrow> int \<Rightarrow> int \<Rightarrow> bool" where
  "esPosicionValida t f c \<longleftrightarrow> f \<ge> 0 \<and> f < int (filas t) \<and> c \<ge> 0 \<and> c < int (columnas t)"

text \<open>\<open>obtenerCelda\<close> answers \<open>null\<close> (here \<open>None\<close>) outside the grid.\<close>

definition obtenerCelda :: "tablero \<Rightarrow> int \<Rightarrow> int \<Rightarrow> celda option" where
  "obtenerCelda t f c =
     (if esPosicionValida t f c then Some (celdas t ! nat f ! nat c) else None)"

text \<open>
  Cells are objects shared by reference; a method called on the cell at a position is
  a replacement of that entry of the grid.
\<close>

definition modificarCelda :: "int \<Rightarrow> int \<Rightarrow> (celda \<Rightarrow> celda) \<Rightarrow> tablero \<Rightarrow> tablero" where
  "modificarCelda f c g t =
     t\<lparr>celdas := (celdas t)[nat f := (celdas t ! nat f)[nat c := g (celdas t ! nat f ! nat c)]]\<rparr>"

definition establecerValorCelda :: "int \<Rightarrow> int \<Rightarrow> valor \<Rightarrow> tablero \<Rightarrow> bool \<times> tablero" where
  "establecerValorCelda f c v t =
     (case obtenerCelda t f c of
        None \<Rightarrow> (False, t)
      | Some celda \<Rightarrow>
          if \<not> descubierta celda then
            (True, (modificarCelda f c (establecerValor v) t)
                     \<lparr>contadorDescubiertas := contadorDescubiertas t + 1,
                      ultimoCambio := CambioDescubierta f c v,
                      restriccionesActualizadas := False\<rparr>)
          else (False, t))"

definition establecerBandera :: "int \<Rightarrow> int \<Rightarrow> bool \<Rightarrow> tablero \<Rightarrow> bool \<times> tablero" where
  "establecerBandera f c b t =
     (case obtenerCelda t f c of
        None \<Rightarrow> (False, t)
      | Some celda \<Rightarrow>
          if \<not> descubierta celda \<and> tieneBandera celda \<noteq> b then
            (True, (modificarCelda f c (establecerBanderaCelda b) t)
                     \<lparr>contadorBanderas := contadorBanderas t + (if b then 1 else - 1),
                      ultimoCambio := CambioBandera f c b,
                      restriccionesActualizadas := False\<rparr>)
          else (False, t))"

text \<open>The eight offsets of \<open>obtenerCeldasAdyacentes\<close>, in the order of its two loops.\<close>

definition desplazamientos :: "(int \<times> int) list" where
  "desplazamientos =
     [(-1, -1), (-1, 0), (-1, 1), (0, -1), (0, 1), (1, -1), (1, 0), (1, 1)]"

definition obtenerCeldasAdyacentes :: "tablero \<Rightarrow> int \<Rightarrow> int \<Rightarrow> celda list" where
  "obtenerCeldasAdyacentes t f c =
     concat (map (\<lambda>(i, j). case obtenerCelda t (f + i) (c + j) of
                              None \<Rightarrow> [] | Some x \<Rightarrow> [x]) desplazamientos)"

text \<open>All cells in row-major order, the order of every scan of the grid.\<close>

definition todasLasCeldas :: "tablero \<Rightarrow> celda list" where
  "todasLasCeldas t =
     concat (map (\<lambda>f. map (\<lambda>k. celdas t ! f ! k) [0..<columnas t]) [0..<filas t])"

definition obtenerCeldasSinRevolar :: "tablero \<Rightarrow> celda list" where
  "obtenerCeldasSinRevolar t = filter (\<lambda>c. \<not> descubierta c) (todasLasCeldas t)"

definition obtenerCeldasConBandera :: "tablero \<Rightarrow> celda list" where
  "obtenerCeldasConBandera t = filter tieneBandera (todasLasCeldas t)"

definition obtenerCeldasNumericas :: "tablero \<Rightarrow> celda list" where
  "obtenerCeldasNumericas t = filter tieneValorNumerico (todasLasCeldas t)"

definition obtenerCeldasConCertezaDeMina :: "tablero \<Rightarrow> celda list" where
  "obtenerCeldasConCertezaDeMina t =
     filter (\<lambda>c. \<not> descubierta c \<and> \<not> tieneBandera c \<and> es100PorCientoMina c) (todasLasCeldas t)"

text \<open>
  The grid invariant established by the constructor: a rectangle of \<open>filas \<times> columnas\<close>
  cells, each knowing its own position.
\<close>

definition bienFormado :: "tablero \<Rightarrow> bool" where
  "bienFormado t \<longleftrightarrow>
     length (celdas t) = filas t \<and>
     (\<forall>f < filas t. length (celdas t ! f) = columnas t \<and>
        (\<forall>k < columnas t. fila (celdas t ! f ! k) = int f \<and> columna (celdas t ! f ! k) = int k))"

section \<open>Constraints attached to the cells\<close>

definition numero :: "int option \<Rightarrow> int" where
  \<comment> \<open>\<open>null\<close> in arithmetic and in \<open>>=\<close> is 0.\<close>
  "numero v = (case v of None \<Rightarrow> 0 | Some n \<Rightarrow> n)"

definition mismaPosicion :: "celda \<Rightarrow> celda \<Rightarrow> bool" where
  "mismaPosicion a b \<longleftrightarrow> fila a = fila b \<and> columna a = columna b"

definition sinRevelar :: "celda list \<Rightarrow> celda list" where
  "sinRevelar cs = filter (\<lambda>c. \<not> descubierta c) cs"

definition contarBanderas :: "celda list \<Rightarrow> int" where
  "contarBanderas cs = int (length (filter tieneBandera cs))"

text \<open>\<open>Celda.agregarRestriccion\<close>: one constraint per origin.\<close>

definition agregarRestriccion :: "restriccion \<Rightarrow> celda \<Rightarrow> celda" where
  "agregarRestriccion r c =
     (if list_ex (\<lambda>r'. celdaOrigen r' = celdaOrigen r) (restricciones c) then c
      else c\<lparr>restricciones := restricciones c @ [r]\<rparr>)"

definition limpiarRestricciones :: "tablero \<Rightarrow> tablero" where
  "limpiarRestricciones t =
     t\<lparr>celdas := map (\<lambda>f. map (\<lambda>k. (celdas t ! f ! k)\<lparr>restricciones := []\<rparr>) [0..<columnas t])
                       [0..<filas t]\<rparr>"

definition posiciones :: "tablero \<Rightarrow> (int \<times> int) list" where
  "posiciones t =
     concat (map (\<lambda>f. map (\<lambda>k. (int f, int k)) [0..<columnas t]) [0..<filas t])"

text \<open>The body of the second double loop of \<open>actualizarRestricciones\<close>.\<close>

definition restringirDesde :: "int \<times> int \<Rightarrow> tablero \<Rightarrow> tablero" where
  "restringirDesde p t =
     (let celda = celdas t ! nat (fst p) ! nat (snd p)
      in if tieneValorNumerico celda then
           (let v = numero (obtenerValorNumerico celda);
                ady = obtenerCeldasAdyacentes t (fst p) (snd p);
                libres = sinRevelar ady
            in if length libres > 0 then
                 (let b = contarBanderas ady;
                      r = \<lparr>celdaOrigen = p, valorR = v, banderasColocadasR = b,
                           minasRestantes = v - b,
                           celdasAfectadas = map (\<lambda>c. (fila c, columna c)) libres\<rparr>
                  in fold (\<lambda>c. modificarCelda (fila c) (columna c) (agregarRestriccion r))
                       libres t)
               else t)
         else t)"

definition actualizarRestricciones :: "tablero \<Rightarrow> tablero" where
  "actualizarRestricciones t =
     (if restriccionesActualizadas t then t
      else (fold restringirDesde (posiciones t) (limpiarRestricciones t))
             \<lparr>restriccionesActualizadas := True\<rparr>)"

section \<open>GestorBanderas: the constraint engine\<close>

text \<open>
  A candidate flag.  The source's \<open>origen\<close> is a log message with the coordinates of the
  cells of the rule; the model keeps the name of the rule.
\<close>

record bandera =
  filaB :: int
  columnaB :: int
  origenB :: string
  iteracionB :: nat

record gestorBanderas =
  tableroG :: tablero
  banderasColocadas :: "bandera list"
  ultimaIteracion :: nat

datatype error = TypeError

definition marcarParaBandera :: "celda \<Rightarrow> string \<Rightarrow> gestorBanderas \<Rightarrow> gestorBanderas" where
  "marcarParaBandera celda og g =
     g\<lparr>banderasColocadas := banderasColocadas g @
          [\<lparr>filaB = fila celda, columnaB = columna celda, origenB = og,
            iteracionB = ultimaIteracion g\<rparr>]\<rparr>"

definition enBanderas :: "bandera list \<Rightarrow> celda \<Rightarrow> bool" where
  "enBanderas bs c \<longleftrightarrow> list_ex (\<lambda>b. filaB b = fila c \<and> columnaB b = columna c) bs"

text \<open>The constraints of a cell whose origin is still a numeric cell of the grid.\<close>

definition origenNumerico :: "tablero \<Rightarrow> restriccion \<Rightarrow> celda option" where
  "origenNumerico t r =
     (case obtenerCelda t (fst (celdaOrigen r)) (snd (celdaOrigen r)) of
        None \<Rightarrow> None
      | Some cr \<Rightarrow> if tieneValorNumerico cr then Some cr else None)"

definition esSeguroColocarBandera :: "gestorBanderas \<Rightarrow> celda \<Rightarrow> bool" where
  "esSeguroColocarBandera g celda =
     (if tieneBandera celda \<or> descubierta celda then False
      else if list_ex (\<lambda>a. descubierta a \<and>
                 (valor a = Vacio \<or> valor a = Digito 0 \<or> obtenerValorNumerico a = Some 0))
               (obtenerCeldasAdyacentes (tableroG g) (fila celda) (columna celda))
      then False
      else list_all (\<lambda>r. case origenNumerico (tableroG g) r of
                 None \<Rightarrow> True
               | Some cr \<Rightarrow>
                   \<not> (int (length (filter (\<lambda>c. tieneBandera c \<or> enBanderas (banderasColocadas g) c)
                          (obtenerCeldasAdyacentes (tableroG g)
                             (fst (celdaOrigen r)) (snd (celdaOrigen r)))))
                      \<ge> numero (obtenerValorNumerico cr)))
             (restricciones celda))"

text \<open>
  Every rule ends the same way: if the cell is safe to flag, its estimate is raised to a
  certain mine and the cell joins the batch.
\<close>

definition marcarSiSeguro :: "string \<Rightarrow> string \<Rightarrow> celda \<Rightarrow> gestorBanderas \<Rightarrow> gestorBanderas" where
  "marcarSiSeguro ogProb regla celda g =
     (if esSeguroColocarBandera g celda then
        marcarParaBandera celda regla
          (g\<lparr>tableroG := modificarCelda (fila celda) (columna celda)
                 (actualizarProbabilidades 1 1 ogProb) (tableroG g)\<rparr>)
      else g)"

definition adyacentesDe :: "gestorBanderas \<Rightarrow> celda \<Rightarrow> celda list" where
  "adyacentesDe g c = obtenerCeldasAdyacentes (tableroG g) (fila c) (columna c)"

definition libres :: "celda list \<Rightarrow> celda list" where
  "libres cs = filter (\<lambda>c. \<not> descubierta c \<and> \<not> tieneBandera c) cs"

subsection \<open>First pass: basic counting\<close>

definition analizarRestriccionBasica :: "celda \<Rightarrow> gestorBanderas \<Rightarrow> gestorBanderas" where
  "analizarRestriccionBasica celdaNumerica g =
     (let v = numero (obtenerValorNumerico celdaNumerica);
          ady = adyacentesDe g celdaNumerica;
          candidatas = libres ady;
          minasFaltantes = v - contarBanderas ady
      in if int (length candidatas) = minasFaltantes \<and> minasFaltantes > 0 then
           fold (marcarSiSeguro ''analisis100'' ''restriccion_basica'') candidatas g
         else g)"

definition analizarRestriccionesBasicas :: "gestorBanderas \<Rightarrow> gestorBanderas" where
  "analizarRestriccionesBasicas g =
     fold analizarRestriccionBasica (obtenerCeldasNumericas (tableroG g)) g"

subsection \<open>Second pass: subsets and partial intersections\<close>

definition esSubconjunto :: "celda list \<Rightarrow> celda list \<Rightarrow> bool" where
  "esSubconjunto conjuntoA conjuntoB =
     (if length conjuntoA > length conjuntoB then False
      else list_all (\<lambda>a. list_ex (mismaPosicion a) conjuntoB) conjuntoA)"

definition aplicarAnalisisSubconjunto ::
  "celda \<Rightarrow> celda \<Rightarrow> celda list \<Rightarrow> celda list \<Rightarrow> gestorBanderas \<Rightarrow> gestorBanderas" where
  "aplicarAnalisisSubconjunto celdaSub celdaSuper adySub adySuper g =
     (let minasFaltantesSub = numero (obtenerValorNumerico celdaSub) - contarBanderas adySub;
          minasFaltantesSuper = numero (obtenerValorNumerico celdaSuper) - contarBanderas adySuper;
          celdasDiferencia = filter (\<lambda>s. \<not> list_ex (\<lambda>b. mismaPosicion b s) adySub) adySuper;
          minasDiferencia = minasFaltantesSuper - minasFaltantesSub
      in if int (length celdasDiferencia) = minasDiferencia \<and> minasDiferencia > 0 then
           fold (\<lambda>c g. if \<not> tieneBandera c \<and> \<not> descubierta c
                        then marcarSiSeguro ''analisis100'' ''subconjunto'' c g else g)
             celdasDiferencia g
         else g)"

definition marcarSeguras :: "celda list \<Rightarrow> gestorBanderas \<Rightarrow> gestorBanderas" where
  "marcarSeguras cs g =
     fold (\<lambda>c g. if \<not> descubierta c \<and> \<not> tieneBandera c
                  then g\<lparr>tableroG := modificarCelda (fila c) (columna c)
                            (actualizarProbabilidades 0 1 ''analisis100'') (tableroG g)\<rparr>
                  else g) cs g"

definition analizarInterseccionParcial ::
  "celda \<Rightarrow> celda \<Rightarrow> celda list \<Rightarrow> celda list \<Rightarrow> gestorBanderas \<Rightarrow> gestorBanderas" where
  "analizarInterseccionParcial celdaA celdaB adyA adyB g =
     (let inter = filter (\<lambda>a. list_ex (\<lambda>b. mismaPosicion a b) adyB) adyA
      in if length inter > 0 \<and> length inter < length adyA \<and> length inter < length adyB then
           (let banderasInter = contarBanderas inter;
                minasFaltantesA = numero (obtenerValorNumerico celdaA) - contarBanderas adyA;
                minasFaltantesB = numero (obtenerValorNumerico celdaB) - contarBanderas adyB;
                soloA = filter (\<lambda>a. \<not> list_ex (\<lambda>i. mismaPosicion a i) inter) adyA;
                soloB = filter (\<lambda>b. \<not> list_ex (\<lambda>i. mismaPosicion b i) inter) adyB;
                g1 = (if minasFaltantesA \<le> int (length inter) - banderasInter \<and> length soloA > 0
                      then marcarSeguras soloA g else g);
                g2 = (if minasFaltantesB \<le> int (length inter) - banderasInter \<and> length soloB > 0
                      then marcarSeguras soloB g1 else g1);
                minasMaxInter = min minasFaltantesA minasFaltantesB;
                minasMinA = max 0 (minasFaltantesA - int (length soloA));
                minasMinB = max 0 (minasFaltantesB - int (length soloB));
                minasMinInter = max minasMinA minasMinB
            in if minasMinInter = minasMaxInter \<and>
                  minasMinInter = int (length inter) - banderasInter then
                 fold (\<lambda>c g. if \<not> descubierta c \<and> \<not> tieneBandera c
                              then marcarSiSeguro ''analisis100'' ''interseccion'' c g else g)
                   inter g2
               else g2)
         else g)"

definition analizarPar :: "celda \<Rightarrow> celda \<Rightarrow> gestorBanderas \<Rightarrow> gestorBanderas" where
  "analizarPar celdaA celdaB g =
     (let adyA = sinRevelar (adyacentesDe g celdaA);
          adyB = sinRevelar (adyacentesDe g celdaB);
          g1 = (if esSubconjunto adyA adyB then aplicarAnalisisSubconjunto celdaA celdaB adyA adyB g
                else if esSubconjunto adyB adyA
                then aplicarAnalisisSubconjunto celdaB celdaA adyB adyA g
                else g)
      in analizarInterseccionParcial celdaA celdaB adyA adyB g1)"

definition analizarSubconjuntos :: "gestorBanderas \<Rightarrow> gestorBanderas" where
  "analizarSubconjuntos g =
     (let ns = obtenerCeldasNumericas (tableroG g)
      in fold (\<lambda>i. fold (\<lambda>j g. if i = j then g else analizarPar (ns ! i) (ns ! j) g)
                      [0..<length ns])
           [0..<length ns] g)"

subsection \<open>Third pass: fixed patterns\<close>

text \<open>
  The loops of the three searches only visit positions of the grid, so \<open>obtenerCelda\<close>
  never answers \<open>null\<close> in them; the model leaves the state unchanged in that
  (unreachable) case.
\<close>

definition esNumero :: "celda \<Rightarrow> int \<Rightarrow> bool" where
  "esNumero c n \<longleftrightarrow> tieneValorNumerico c \<and> obtenerValorNumerico c = Some n"

definition buscarPatron121En :: "int \<times> int \<Rightarrow> int \<times> int \<Rightarrow> gestorBanderas \<Rightarrow> gestorBanderas" where
  "buscarPatron121En p d g =
     (let f = fst p; k = snd p; dx = fst d; dy = snd d; t = tableroG g
      in if f + 2 * dy < int (filas t) \<and> k + 2 * dx < int (columnas t) then
           (case (obtenerCelda t f k, obtenerCelda t (f + dy) (k + dx),
                  obtenerCelda t (f + 2 * dy) (k + 2 * dx)) of
              (Some celda1, Some celda2, Some celda3) \<Rightarrow>
                if esNumero celda1 1 \<and> esNumero celda2 2 \<and> esNumero celda3 1 then
                  (let ady1 = adyacentesDe g celda1;
                       ady2 = adyacentesDe g celda2;
                       ady3 = adyacentesDe g celda3;
                       celdasSoloDel2 = filter (\<lambda>c. \<not> list_ex (\<lambda>a. mismaPosicion a c) ady1 \<and>
                                                   \<not> list_ex (\<lambda>a. mismaPosicion a c) ady3 \<and>
                                                   \<not> descubierta c) ady2
                   in if length celdasSoloDel2 = 2 then
                        fold (\<lambda>c g. if \<not> tieneBandera c
                                     then marcarSiSeguro ''patron'' ''patron_121'' c g else g)
                          celdasSoloDel2 g
                      else g)
                else g
            | _ \<Rightarrow> g)
         else g)"

definition buscarPatron121 :: "gestorBanderas \<Rightarrow> gestorBanderas" where
  "buscarPatron121 g =
     fold (\<lambda>p. fold (buscarPatron121En p) [(1, 0), (0, 1)]) (posiciones (tableroG g)) g"

definition buscarPatron11EsquinaEn ::
  "int \<times> int \<Rightarrow> (int \<times> int) \<times> (int \<times> int) \<Rightarrow> gestorBanderas \<Rightarrow> gestorBanderas" where
  "buscarPatron11EsquinaEn p e g =
     (let f = fst p; k = snd p; dx1 = fst (fst e); dy1 = snd (fst e);
          dx2 = fst (snd e); dy2 = snd (snd e); t = tableroG g
      in if f + dy1 \<ge> 0 \<and> f + dy1 < int (filas t) \<and> k + dx1 \<ge> 0 \<and> k + dx1 < int (columnas t) \<and>
            f + dy2 \<ge> 0 \<and> f + dy2 < int (filas t) \<and> k + dx2 \<ge> 0 \<and> k + dx2 < int (columnas t) then
           (case (obtenerCelda t f k, obtenerCelda t (f + dy1) (k + dx1),
                  obtenerCelda t (f + dy2) (k + dx2)) of
              (Some celdaCentral, Some celda1, Some celda2) \<Rightarrow>
                if esNumero celda1 1 \<and> esNumero celda2 1 \<and>
                   \<not> descubierta celdaCentral \<and> \<not> tieneBandera celdaCentral then
                  (let ady1 = libres (adyacentesDe g celda1);
                       ady2 = libres (adyacentesDe g celda2)
                   in if length ady1 = 1 \<and> length ady2 = 1 \<and>
                         mismaPosicion (hd ady1) celdaCentral \<and>
                         mismaPosicion (hd ady2) celdaCentral then
                        marcarSiSeguro ''patron'' ''patron_11_esquina'' celdaCentral g
                      else g)
                else g
            | _ \<Rightarrow> g)
         else g)"

definition esquinas :: "((int \<times> int) \<times> (int \<times> int)) list" where
  "esquinas = [((0, -1), (-1, 0)), ((0, -1), (1, 0)), ((0, 1), (-1, 0)), ((0, 1), (1, 0))]"

definition buscarPatron11Esquina :: "gestorBanderas \<Rightarrow> gestorBanderas" where
  "buscarPatron11Esquina g =
     fold (\<lambda>p. fold (buscarPatron11EsquinaEn p) esquinas) (posiciones (tableroG g)) g"

definition buscarPatronBordeEn :: "int \<times> int \<Rightarrow> gestorBanderas \<Rightarrow> gestorBanderas" where
  "buscarPatronBordeEn p g =
     (case obtenerCelda (tableroG g) (fst p) (snd p) of
        None \<Rightarrow> g
      | Some celda \<Rightarrow>
          if esBorde celda \<and> esNumero celda 1 then
            (let adyacentesSinDescubrir =
                   libres (obtenerCeldasAdyacentes (tableroG g) (fst p) (snd p))
             in if length adyacentesSinDescubrir = 1 then
                  marcarSiSeguro ''patron'' ''patron_borde'' (hd adyacentesSinDescubrir) g
                else g)
          else g)"

definition buscarPatronBorde :: "gestorBanderas \<Rightarrow> gestorBanderas" where
  "buscarPatronBorde g = fold buscarPatronBordeEn (posiciones (tableroG g)) g"

definition analizarPatrones :: "gestorBanderas \<Rightarrow> gestorBanderas" where
  "analizarPatrones g = buscarPatronBorde (buscarPatron11Esquina (buscarPatron121 g))"

subsection \<open>Fourth pass: linear systems\<close>

definition posicionDe :: "celda \<Rightarrow> int \<times> int" where
  "posicionDe c = (fila c, columna c)"

text \<open>
  \<open>mapaCeldas[clave]\<close>: the numeric cells that have the cell at \<open>clave\<close> among their
  unrevealed neighbours, in the order of the scan that fills the map.
\<close>

definition mapaCeldas :: "tablero \<Rightarrow> celda list \<Rightarrow> int \<times> int \<Rightarrow> celda list" where
  "mapaCeldas t ns clave =
     filter (\<lambda>n. list_ex (\<lambda>a. posicionDe a = clave)
                   (sinRevelar (obtenerCeldasAdyacentes t (fila n) (columna n)))) ns"

text \<open>
  The inner \<open>forEach\<close> of \<open>obtenerGrupoConectado\<close> over the unrevealed neighbours of
  one constraint; the state is \<open>celdasEnGrupo\<close>, \<open>grupo.celdas\<close> and the queue.
\<close>

definition procesarAdyacentes ::
  "tablero \<Rightarrow> celda list \<Rightarrow> (int \<times> int) list \<Rightarrow> celda list \<Rightarrow>
   (int \<times> int) list \<times> celda list \<times> celda list \<Rightarrow>
   (int \<times> int) list \<times> celda list \<times> celda list" where
  "procesarAdyacentes t ns procesadas ady st =
     fold (\<lambda>celda (enGrupo, cs, cola).
             if posicionDe celda \<in> set enGrupo then (enGrupo, cs, cola)
             else (enGrupo @ [posicionDe celda], cs @ [celda],
                   cola @ filter (\<lambda>r. posicionDe r \<notin> set procesadas)
                            (mapaCeldas t ns (posicionDe celda))))
       ady st"

lemma procesarAdyacentes_cola:
  "set (snd (snd (procesarAdyacentes t ns ps ady st))) \<subseteq> set (snd (snd st)) \<union> set ns"
  unfolding procesarAdyacentes_def
proof (induction ady arbitrary: st)
  case Nil
  then show ?case by simp
next
  case (Cons a ady)
  obtain en cs cola where st: "st = (en, cs, cola)" by (cases st) auto
  show ?case
  proof (cases "posicionDe a \<in> set en")
    case True
    then show ?thesis using Cons.IH [of st] st by simp
  next
    case False
    let ?st' = "(en @ [posicionDe a], cs @ [a],
                 cola @ filter (\<lambda>r. posicionDe r \<notin> set ps) (mapaCeldas t ns (posicionDe a)))"
    have "set (snd (snd ?st')) \<subseteq> set cola \<union> set ns"
      by (auto simp: mapaCeldas_def)
    then show ?thesis using Cons.IH [of ?st'] st False by auto
  qed
qed

text \<open>The \<open>while\<close> loop of \<open>obtenerGrupoConectado\<close>: a breadth-first search.\<close>

function obtenerGrupoConectadoBucle ::
  "tablero \<Rightarrow> celda list \<Rightarrow> celda list \<Rightarrow> (int \<times> int) list \<Rightarrow> (int \<times> int) list \<Rightarrow>
   celda list \<Rightarrow> celda list \<Rightarrow> (int \<times> int) list \<times> celda list \<times> celda list" where
  "obtenerGrupoConectadoBucle t ns [] procesadas enGrupo rs cs = (procesadas, rs, cs)"
| "obtenerGrupoConectadoBucle t ns (cr # cola) procesadas enGrupo rs cs =
     (if posicionDe cr \<in> set procesadas then
        obtenerGrupoConectadoBucle t ns cola procesadas enGrupo rs cs
      else
        (let procesadas' = procesadas @ [posicionDe cr];
             st = procesarAdyacentes t ns procesadas'
                    (sinRevelar (obtenerCeldasAdyacentes t (fila cr) (columna cr)))
                    (enGrupo, cs, cola)
         in obtenerGrupoConectadoBucle t ns (snd (snd st)) procesadas' (fst st)
              (rs @ [cr]) (fst (snd st))))"
  by pat_completeness auto
termination
proof (relation "measures
    [\<lambda>(t, ns, cola, ps, en, rs, cs). card (posicionDe ` (set cola \<union> set ns) - set ps),
     \<lambda>(t, ns, cola, ps, en, rs, cs). length cola]", goal_cases)
  case 1
  then show ?case by simp
next
  case (2 t ns cr cola ps en rs cs)
  have "posicionDe ` (set cola \<union> set ns) - set ps
          \<subseteq> posicionDe ` (set (cr # cola) \<union> set ns) - set ps" by auto
  then have "card (posicionDe ` (set cola \<union> set ns) - set ps)
          \<le> card (posicionDe ` (set (cr # cola) \<union> set ns) - set ps)"
    by (intro card_mono) auto
  then show ?case by auto
next
  case (3 t ns cr cola ps en rs cs ps' st)
  have sub: "set (snd (snd st)) \<subseteq> set cola \<union> set ns"
    using procesarAdyacentes_cola [of t ns ps' _ "(en, cs, cola)"] 3(3) by simp
  have "posicionDe ` (set (snd (snd st)) \<union> set ns) - set ps'
          \<subset> posicionDe ` (set (cr # cola) \<union> set ns) - set ps"
    using sub 3(1) 3(2) by auto
  then have "card (posicionDe ` (set (snd (snd st)) \<union> set ns) - set ps')
          < card (posicionDe ` (set (cr # cola) \<union> set ns) - set ps)"
    by (intro psubset_card_mono) auto
  then show ?case by simp
qed

text \<open>
  \<open>agruparRestriccionesPorCeldasComunes\<close>: a group is the pair of \<open>grupo.restricciones\<close>
  (numeric cells) and \<open>grupo.celdas\<close> (unrevealed cells); one search per numeric cell
  that no earlier search has reached.
\<close>

definition agruparRestriccionesPorCeldasComunes :: "tablero \<Rightarrow> (celda list \<times> celda list) list" where
  "agruparRestriccionesPorCeldasComunes t =
     (let ns = obtenerCeldasNumericas t
      in snd (fold (\<lambda>n (procesadas, grupos).
                if posicionDe n \<in> set procesadas then (procesadas, grupos)
                else (let r = obtenerGrupoConectadoBucle t ns [n] procesadas [] [] []
                      in (fst r, if length (fst (snd r)) \<ge> 2
                                 then grupos @ [(fst (snd r), snd (snd r))] else grupos)))
              ns ([], [])))"

text \<open>
  \<open>eliminarGaussiana\<close> on the augmented matrix, a list of rows of \<open>m + 1\<close> entries.
  Step \<open>i\<close> reads column \<open>i\<close>; for \<open>i > m\<close> these reads are \<open>undefined\<close>, every
  comparison with them is false and the loops from \<open>i\<close> to \<open>m\<close> are empty, so the
  step changes nothing.
\<close>

definition buscarPivote :: "real list list \<Rightarrow> nat \<Rightarrow> nat \<Rightarrow> nat" where
  "buscarPivote a n i =
     fold (\<lambda>j maxFila. if \<bar>a ! j ! i\<bar> > \<bar>a ! maxFila ! i\<bar> then j else maxFila) [i + 1..<n] i"

definition normalizarFila :: "nat \<Rightarrow> real list \<Rightarrow> real list" where
  "normalizarFila i xs = map (\<lambda>j. if i \<le> j then xs ! j / xs ! i else xs ! j) [0..<length xs]"

definition restarFila :: "nat \<Rightarrow> real list \<Rightarrow> real list \<Rightarrow> real list" where
  "restarFila i filaI filaJ =
     map (\<lambda>k. if i \<le> k then filaJ ! k - filaJ ! i * filaI ! k else filaJ ! k) [0..<length filaJ]"

definition pasoEliminacion :: "nat \<Rightarrow> nat \<Rightarrow> nat \<Rightarrow> real list list \<Rightarrow> real list list" where
  "pasoEliminacion n m i a =
     (if i > m then a
      else
        (let maxFila = buscarPivote a n i;
             a1 = (if maxFila \<noteq> i then a[i := a ! maxFila, maxFila := a ! i] else a)
         in if \<bar>a1 ! i ! i\<bar> < 1 / 10000000000 then a1
            else
              (let a2 = a1[i := normalizarFila i (a1 ! i)]
               in fold (\<lambda>j b. if j \<noteq> i then b[j := restarFila i (b ! i) (b ! j)] else b)
                    [0..<n] a2)))"

text \<open>
  The extraction loop.  \<open>soluciones\<close> starts with \<open>m\<close> zeros; the assignment at index
  \<open>i = m\<close> (possible when there are more equations than unknowns) extends the array.
\<close>

definition extraerSolucion :: "nat \<Rightarrow> real list list \<Rightarrow> nat \<Rightarrow> real list \<Rightarrow> real list" where
  "extraerSolucion m a i soluciones =
     (let suma = fold (\<lambda>j s. if i \<noteq> j \<and> \<bar>a ! i ! j\<bar> > 1 / 10000000000
                              then s - a ! i ! j * soluciones ! j else s)
                   [0..<m] (a ! i ! m)
      in if i \<le> m \<and> \<bar>a ! i ! i\<bar> > 1 / 10000000000 then
           (if i < length soluciones then soluciones[i := suma / a ! i ! i]
            else soluciones @ [suma / a ! i ! i])
         else soluciones)"

definition eliminarGaussiana :: "real list list \<Rightarrow> real list \<Rightarrow> real list option" where
  "eliminarGaussiana matriz vector =
     (let n = length matriz; m = length (matriz ! 0)
      in if m > n then None
         else
           (let aumentada = map (\<lambda>i. matriz ! i @ [vector ! i]) [0..<n];
                reducida = fold (pasoEliminacion n m) [0..<n] aumentada
            in Some (fold (extraerSolucion m reducida) [0..<n] (replicate m 0))))"

text \<open>
  \<open>resolverSistemaEcuaciones\<close>: one equation per constraint of the group.  Entry \<open>i\<close>
  of a row is 1 exactly when cell \<open>i\<close> of the group is an unrevealed neighbour of the
  constraint (the source writes the 1 through the index map of the group's cells).
\<close>

definition resolverSistemaEcuaciones :: "tablero \<Rightarrow> celda list \<times> celda list \<Rightarrow> real list option" where
  "resolverSistemaEcuaciones t grupo =
     (let rs = fst grupo; cs = snd grupo;
          matriz = map (\<lambda>r. map (\<lambda>c. if list_ex (\<lambda>a. posicionDe a = posicionDe c)
                                           (sinRevelar (obtenerCeldasAdyacentes t (fila r) (columna r)))
                                      then 1 else 0) cs) rs;
          valores = map (\<lambda>r. real_of_int (numero (obtenerValorNumerico r) -
                          contarBanderas (obtenerCeldasAdyacentes t (fila r) (columna r)))) rs
      in eliminarGaussiana matriz valores)"

text \<open>
  The loop over the solution vector.  A solution of at least 0.99 at an index that has
  no cell (the extended entry) dereferences \<open>undefined\<close>: a TypeError, which nothing
  in the engine catches.
\<close>

definition procesarSolucion ::
  "celda list \<Rightarrow> real list \<Rightarrow> nat \<Rightarrow> error + gestorBanderas \<Rightarrow> error + gestorBanderas" where
  "procesarSolucion cs soluciones i eg =
     (case eg of
        Inl e \<Rightarrow> Inl e
      | Inr g \<Rightarrow>
          if soluciones ! i \<ge> 99 / 100 then
            (if i < length cs then
               (if \<not> tieneBandera (cs ! i) \<and> \<not> descubierta (cs ! i)
                then Inr (marcarSiSeguro ''analisis100'' ''sistema_ecuaciones'' (cs ! i) g)
                else Inr g)
             else Inl TypeError)
          else Inr g)"

definition analizarGrupo :: "celda list \<times> celda list \<Rightarrow> error + gestorBanderas \<Rightarrow> error + gestorBanderas" where
  "analizarGrupo grupo eg =
     (case eg of
        Inl e \<Rightarrow> Inl e
      | Inr g \<Rightarrow>
          if length (snd grupo) \<ge> 2 then
            (case resolverSistemaEcuaciones (tableroG g) grupo of
               None \<Rightarrow> Inr g
             | Some soluciones \<Rightarrow>
                 fold (procesarSolucion (snd grupo) soluciones) [0..<length soluciones] (Inr g))
          else Inr g)"

definition analizarSistemasEcuaciones :: "gestorBanderas \<Rightarrow> error + gestorBanderas" where
  "analizarSistemasEcuaciones g =
     fold analizarGrupo (agruparRestriccionesPorCeldasComunes (tableroG g)) (Inr g)"

subsection \<open>The global consistency filter and the run\<close>

text \<open>
  \<open>esConsistenteGlobal\<close>: the flags around the origin of every constraint of the
  candidate's cell, counting flags already placed, candidates already accepted and the
  candidate itself.  A candidate outside the grid would dereference \<open>null\<close>.
\<close>

definition banderasAlrededor :: "tablero \<Rightarrow> bandera list \<Rightarrow> bandera \<Rightarrow> int \<times> int \<Rightarrow> int" where
  "banderasAlrededor t aceptadas b p =
     int (length (filter (\<lambda>c. tieneBandera c \<or> enBanderas aceptadas c \<or>
                              (fila c = filaB b \<and> columna c = columnaB b))
                    (obtenerCeldasAdyacentes t (fst p) (snd p))))"

definition esConsistenteGlobal :: "tablero \<Rightarrow> bandera list \<Rightarrow> bandera \<Rightarrow> error + bool" where
  "esConsistenteGlobal t aceptadas b =
     (case obtenerCelda t (filaB b) (columnaB b) of
        None \<Rightarrow> Inl TypeError
      | Some celda \<Rightarrow>
          Inr (list_all (\<lambda>r. case origenNumerico t r of
                   None \<Rightarrow> True
                 | Some cr \<Rightarrow> \<not> (banderasAlrededor t aceptadas b (celdaOrigen r)
                                  > numero (obtenerValorNumerico cr)))
                (restricciones celda)))"

definition validarBandera :: "tablero \<Rightarrow> bandera \<Rightarrow> error + bandera list \<Rightarrow> error + bandera list" where
  "validarBandera t b ea =
     (case ea of
        Inl e \<Rightarrow> Inl e
      | Inr aceptadas \<Rightarrow>
          (case esConsistenteGlobal t aceptadas b of
             Inl e \<Rightarrow> Inl e
           | Inr ok \<Rightarrow> Inr (if ok then aceptadas @ [b] else aceptadas)))"

definition validarConsistenciaGlobal :: "gestorBanderas \<Rightarrow> error + gestorBanderas" where
  "validarConsistenciaGlobal g =
     (case fold (validarBandera (tableroG g)) (banderasColocadas g) (Inr []) of
        Inl e \<Rightarrow> Inl e
      | Inr aceptadas \<Rightarrow> Inr (g\<lparr>banderasColocadas := aceptadas\<rparr>))"

text \<open>
  \<open>colocarBanderasSeguras\<close>; the batch it returns is \<open>banderasColocadas\<close> of the
  resulting state.
\<close>

definition colocarBanderasSeguras :: "gestorBanderas \<Rightarrow> error + gestorBanderas" where
  "colocarBanderasSeguras g =
     (let g0 = g\<lparr>tableroG := actualizarRestricciones (tableroG g),
                 banderasColocadas := [],
                 ultimaIteracion := ultimaIteracion g + 1\<rparr>;
          g3 = analizarPatrones (analizarSubconjuntos (analizarRestriccionesBasicas g0))
      in case analizarSistemasEcuaciones g3 of
           Inl e \<Rightarrow> Inl e
         | Inr g4 \<Rightarrow> validarConsistenciaGlobal g4)"

definition nuevoGestorBanderas :: "tablero \<Rightarrow> gestorBanderas" where
  "nuevoGestorBanderas t = \<lparr>tableroG = t, banderasColocadas = [], ultimaIteracion = 0\<rparr>"

text \<open>
  \<open>Juego.procesarNuevasBanderas\<close>, the part that touches the grid: every flag of the
  batch is placed on its cell unless the cell is revealed or already flagged.
\<close>

definition procesarNuevasBanderas :: "bandera list \<Rightarrow> tablero \<Rightarrow> tablero" where
  "procesarNuevasBanderas bs t =
     fold (\<lambda>b t. case obtenerCelda t (filaB b) (columnaB b) of
                   None \<Rightarrow> t
                 | Some celda \<Rightarrow>
                     if \<not> descubierta celda \<and> \<not> tieneBandera celda
                     then snd (establecerBandera (filaB b) (columnaB b) True t) else t)
       bs t"

section \<open>GestorMemoria: the learning memory\<close>

text \<open>
  The part of the memory that the known-mine map and the change detection use.  The map
  is a JavaScript object keyed by the coordinates of the cell, in insertion order; time
  stamps are left out.  Occurrence counts are natural numbers below \<open>2 ^ 53\<close>, which
  doubles represent exactly.
\<close>

record minaConocida =
  ocurrencias :: nat
  esReciente :: bool
  partidasAsociadas :: "nat list"

record controlCambios =
  ultimoTableroCC :: "nat option"
  contadorCambios :: nat
  historialCambios :: "(string \<times> nat) list"

record memoria =
  mapaMinasConocidas :: "((int \<times> int) \<times> minaConocida) list"
  minasTotales :: nat
  controlCambiosM :: "controlCambios option"

record gestorMemoria =
  memoriaG :: memoria
  idPartidaActual :: nat
  cambiosDetectados :: bool

definition controlCambiosInicial :: controlCambios where
  "controlCambiosInicial = \<lparr>ultimoTableroCC = None, contadorCambios = 0, historialCambios = []\<rparr>"

definition memoriaInicial :: memoria where
  "memoriaInicial =
     \<lparr>mapaMinasConocidas = [], minasTotales = 0, controlCambiosM = Some controlCambiosInicial\<rparr>"

text \<open>
  The constructor: the memory is whatever the store holds (or the initial structure),
  the game id is the clock, and no change has been detected in this session.
\<close>

definition nuevoGestorMemoria :: "memoria \<Rightarrow> nat \<Rightarrow> gestorMemoria" where
  "nuevoGestorMemoria cargada reloj =
     \<lparr>memoriaG = cargada, idPartidaActual = reloj, cambiosDetectados = False\<rparr>"

definition actualizarMina ::
  "(int \<times> int) \<Rightarrow> (minaConocida \<Rightarrow> minaConocida) \<Rightarrow>
   ((int \<times> int) \<times> minaConocida) list \<Rightarrow> ((int \<times> int) \<times> minaConocida) list" where
  "actualizarMina clave g m = map (\<lambda>(k, v). if k = clave then (k, g v) else (k, v)) m"

definition registrarMinaEncontrada :: "int \<Rightarrow> int \<Rightarrow> gestorMemoria \<Rightarrow> gestorMemoria" where
  "registrarMinaEncontrada f c gm =
     (let m = memoriaG gm; mapa = mapaMinasConocidas m;
          mapa' = (case map_of mapa (f, c) of
                     None \<Rightarrow> mapa @ [((f, c), \<lparr>ocurrencias = 1, esReciente = True,
                                               partidasAsociadas = [idPartidaActual gm]\<rparr>)]
                   | Some v \<Rightarrow>
                       actualizarMina (f, c)
                         (\<lambda>v. v\<lparr>ocurrencias := ocurrencias v + 1, esReciente := True,
                                partidasAsociadas :=
                                  (if idPartidaActual gm \<in> set (partidasAsociadas v)
                                   then partidasAsociadas v
                                   else partidasAsociadas v @ [idPartidaActual gm])\<rparr>) mapa)
      in gm\<lparr>memoriaG := m\<lparr>mapaMinasConocidas := mapa', minasTotales := minasTotales m + 1\<rparr>\<rparr>)"

text \<open>
  \<open>Math.floor(ocurrencias * 0.7)\<close> in double arithmetic.  The double nearest to 0.7 is
  \<open>6305039478318694 / 2 ^ 53\<close>; the product of a count with it is rounded to 53
  significant bits, ties to even, and then floored.  (The result differs from
  \<open>\<lfloor>7 n / 10\<rfloor>\<close>: at 90 it is 62.)
\<close>

fun longitudBits :: "nat \<Rightarrow> nat" where
  "longitudBits n = (if n = 0 then 0 else Suc (longitudBits (n div 2)))"

definition mantisa07 :: nat where
  "mantisa07 = 6305039478318694"

definition redondear53 :: "nat \<Rightarrow> nat" where
  \<comment> \<open>the nearest integer with at most 53 significant bits, ties to even\<close>
  "redondear53 p =
     (if longitudBits p \<le> 53 then p
      else (let s = longitudBits p - 53; q = p div 2 ^ s; r = p mod 2 ^ s
            in (if r > 2 ^ (s - 1) \<or> (r = 2 ^ (s - 1) \<and> odd q) then q + 1 else q) * 2 ^ s))"

definition piso07 :: "nat \<Rightarrow> nat" where
  "piso07 n = redondear53 (n * mantisa07) div 2 ^ 53"

definition atenuarMina :: "minaConocida \<Rightarrow> minaConocida" where
  "atenuarMina v = v\<lparr>ocurrencias := max 1 (piso07 (ocurrencias v)), esReciente := False\<rparr>"

definition atenuarMemoriaAntigua :: "gestorMemoria \<Rightarrow> gestorMemoria" where
  "atenuarMemoriaAntigua gm =
     (let m = memoriaG gm
      in gm\<lparr>memoriaG := m\<lparr>mapaMinasConocidas := map (\<lambda>(k, v). (k, atenuarMina v)) (mapaMinasConocidas m),
                           controlCambiosM :=
                             map_option (\<lambda>cc. cc\<lparr>ultimoTableroCC := Some (idPartidaActual gm)\<rparr>)
                               (controlCambiosM m)\<rparr>\<rparr>)"

definition registrarContradiccion :: "string \<Rightarrow> gestorMemoria \<Rightarrow> gestorMemoria" where
  "registrarContradiccion tipo gm =
     (let m = memoriaG gm;
          cc = (case controlCambiosM m of None \<Rightarrow> controlCambiosInicial | Some cc \<Rightarrow> cc);
          h = historialCambios cc @ [(tipo, idPartidaActual gm)];
          cc' = cc\<lparr>contadorCambios := contadorCambios cc + 1,
                   historialCambios := (if length h > 20 then drop (length h - 20) h else h)\<rparr>;
          gm' = gm\<lparr>memoriaG := m\<lparr>controlCambiosM := Some cc'\<rparr>\<rparr>
      in if contadorCambios cc' \<ge> 3
         then atenuarMemoriaAntigua (gm'\<lparr>cambiosDetectados := True\<rparr>)
         else gm')"

text \<open>
  \<open>obtenerMapaMinasConocidas\<close>: a read.  After a detected change it answers a reduced
  copy (\<open>Math.floor(ocurrencias * 0.5)\<close> is exact: the integer half).
\<close>

definition reducirMina :: "minaConocida \<Rightarrow> minaConocida" where
  "reducirMina v = v\<lparr>ocurrencias := max 1 (ocurrencias v div 2), esReciente := False\<rparr>"

definition obtenerMapaMinasConocidas :: "gestorMemoria \<Rightarrow> ((int \<times> int) \<times> minaConocida) list" where
  "obtenerMapaMinasConocidas gm =
     (if cambiosDetectados gm
      then map (\<lambda>(k, v). (k, reducirMina v)) (mapaMinasConocidas (memoriaG gm))
      else mapaMinasConocidas (memoriaG gm))"

definition reiniciarMemoria :: "nat \<Rightarrow> gestorMemoria \<Rightarrow> gestorMemoria" where
  "reiniciarMemoria reloj gm =
     \<lparr>memoriaG = memoriaInicial, idPartidaActual = reloj, cambiosDetectados = False\<rparr>"

text \<open>
  The events of a session that touch this part of the memory.  The result of a finished
  game only touches statistics, patterns and the list of games, none of which is in the
  model, so it is not an event here.
\<close>

datatype evento = MinaEncontrada int int | Contradiccion string | Reinicio nat

fun aplicarEvento :: "evento \<Rightarrow> gestorMemoria \<Rightarrow> gestorMemoria" where
  "aplicarEvento (MinaEncontrada f c) gm = registrarMinaEncontrada f c gm"
| "aplicarEvento (Contradiccion tipo) gm = registrarContradiccion tipo gm"
| "aplicarEvento (Reinicio reloj) gm = reiniciarMemoria reloj gm"

definition esContradiccion :: "evento \<Rightarrow> bool" where
  "esContradiccion e = (case e of Contradiccion tipo \<Rightarrow> True | _ \<Rightarrow> False)"

definition esReinicio :: "evento \<Rightarrow> bool" where
  "esReinicio e = (case e of Reinicio reloj \<Rightarrow> True | _ \<Rightarrow> False)"

text \<open>
  The persisted contradiction counter (0 when the store has no change control), and what a
  known-mine map says of each record: its occurrence count and its recent flag.
\<close>

definition contadorDe :: "gestorMemoria \<Rightarrow> nat" where
  "contadorDe gm = (case controlCambiosM (memoriaG gm) of None \<Rightarrow> 0 | Some cc \<Rightarrow> contadorCambios cc)"

definition cuentas :: "((int \<times> int) \<times> minaConocida) list \<Rightarrow> (nat \<times> bool) list" where
  "cuentas m = map (\<lambda>kv. (ocurrencias (snd kv), esReciente (snd kv))) m"


section \<open>MotorProbabilidad: the probability engine\<close>

text \<open>
  The engine receives the list of unrevealed cells once, after the constraints have been
  brought up to date, and every stage walks that list.  A stage reads the fields that no
  stage writes (position, flags, constraints, geometry) from the cells of the list and
  reads and writes the estimate on the cell itself, which is the cell of the grid at the
  same position.  \<open>Math.round\<close> is \<open>\<lfloor>x + 1/2\<rfloor>\<close>.
\<close>

definition estimacionMinas :: "tablero \<Rightarrow> int" where
  "estimacionMinas t = \<lfloor>real (filas t * columnas t) * 0.18 + 0.5\<rfloor>"

definition sumaProbabilidades :: "celda list \<Rightarrow> real" where
  "sumaProbabilidades cs = fold (\<lambda>c s. s + probabilidadMina (probabilidades c)) cs 0"

definition enCelda :: "celda \<Rightarrow> (celda \<Rightarrow> celda) \<Rightarrow> tablero \<Rightarrow> tablero" where
  "enCelda c g t = modificarCelda (fila c) (columna c) g t"


subsection \<open>Stage 1: base density\<close>

definition factorPosicion :: "celda \<Rightarrow> real" where
  "factorPosicion c =
     (if esEsquina c then 0.7 else if esBorde c then 0.8
      else if distanciaBorde c = 1 then 0.9 else 1)"

definition probabilidadBase :: "celda list \<Rightarrow> tablero \<Rightarrow> real" where
  "probabilidadBase cs t =
     (let minasFaltantes = max 0 (estimacionMinas t - contadorBanderas t)
      in if length cs > 0 then min 0.5 (real_of_int minasFaltantes / real (length cs))
         else 0.15)"

definition inicializarCelda :: "real \<Rightarrow> celda \<Rightarrow> celda" where
  "inicializarCelda base c =
     (if confianza (probabilidades c) < 0.5
      then actualizarProbabilidades (base * factorPosicion c) 0.3 ''base'' c else c)"

definition inicializarProbabilidadesBase :: "celda list \<Rightarrow> tablero \<Rightarrow> tablero" where
  "inicializarProbabilidadesBase cs t =
     fold (\<lambda>c. enCelda c (inicializarCelda (probabilidadBase cs t))) cs t"

subsection \<open>Stage 2: cells under the same constraints\<close>

text \<open>
  The key of a cell is the sorted list of the origins of its constraints (in the source,
  their decimal renderings sorted and joined): two cells have the same key exactly when
  they have the same constraints.  The groups keep the order in which their keys first
  appear, the order of \<open>Object.values\<close>.
\<close>

definition claveRestricciones :: "celda \<Rightarrow> (int \<times> int) list" where
  "claveRestricciones c = sort (map celdaOrigen (restricciones c))"

type_synonym grupoLocal = "(int \<times> int) list \<times> celda list \<times> restriccion list"

definition agregarAGrupoLocal :: "celda \<Rightarrow> grupoLocal list \<Rightarrow> grupoLocal list" where
  "agregarAGrupoLocal c gs =
     (if length (restricciones c) > 0 then
        (if list_ex (\<lambda>g. fst g = claveRestricciones c) gs
         then map (\<lambda>g. if fst g = claveRestricciones c
                        then (fst g, fst (snd g) @ [c], snd (snd g)) else g) gs
         else gs @ [(claveRestricciones c, [c], restricciones c)])
      else gs)"

definition confianzaLocal :: "nat \<Rightarrow> real" where
  "confianzaLocal n = 0.5 + 0.3 / sqrt (real n)"

definition procesarGrupoLocal :: "grupoLocal \<Rightarrow> tablero \<Rightarrow> tablero" where
  "procesarGrupoLocal g t =
     (let cs = fst (snd g); rs = snd (snd g)
      in if length cs > 0 \<and> length rs > 0 \<and> length rs = 1 then
           (let probabilidad = real_of_int (minasRestantes (rs ! 0)) / real (length cs)
            in fold (\<lambda>c. enCelda c (actualizarProbabilidades probabilidad
                                        (confianzaLocal (length cs)) ''restricciones'')) cs t)
         else t)"

definition calcularProbabilidadesLocales :: "celda list \<Rightarrow> tablero \<Rightarrow> tablero" where
  "calcularProbabilidadesLocales cs t =
     fold procesarGrupoLocal (fold agregarAGrupoLocal cs []) t"

subsection \<open>Stage 3: connected components\<close>

text \<open>
  \<open>obtenerGrupoConexo\<close>: a breadth-first search over the unrevealed cells, two cells
  being linked when they share a constraint.  The state is the queue, the visited
  positions, the positions grouped so far (shared by all searches), the cells of the
  group and the origins of its constraints.
\<close>

definition comparteRestriccion :: "restriccion \<Rightarrow> celda \<Rightarrow> bool" where
  "comparteRestriccion r c \<longleftrightarrow>
     list_ex (\<lambda>r'. celdaOrigen r' = celdaOrigen r) (restricciones c)"

definition visitarRestricciones ::
  "celda list \<Rightarrow> (int \<times> int) list \<Rightarrow> restriccion list \<Rightarrow>
   (int \<times> int) list \<times> celda list \<Rightarrow> (int \<times> int) list \<times> celda list" where
  "visitarRestricciones cs visitadas rs st =
     fold (\<lambda>r (origenes, cola).
             (if celdaOrigen r \<in> set origenes then origenes else origenes @ [celdaOrigen r],
              cola @ filter (\<lambda>otra. posicionDe otra \<notin> set visitadas \<and> comparteRestriccion r otra) cs))
       rs st"

lemma visitarRestricciones_cola:
  "set (snd (visitarRestricciones cs vs rs st)) \<subseteq> set (snd st) \<union> set cs"
  unfolding visitarRestricciones_def
proof (induction rs arbitrary: st)
  case Nil
  then show ?case by simp
next
  case (Cons r rs)
  obtain os cola where st: "st = (os, cola)" by (cases st)
  let ?st' = "(if celdaOrigen r \<in> set os then os else os @ [celdaOrigen r],
               cola @ filter (\<lambda>otra. posicionDe otra \<notin> set vs \<and> comparteRestriccion r otra) cs)"
  have "set (snd ?st') \<subseteq> set cola \<union> set cs" by auto
  then show ?case using Cons.IH [of ?st'] st by auto
qed

function obtenerGrupoConexoBucle ::
  "celda list \<Rightarrow> celda list \<Rightarrow> (int \<times> int) list \<Rightarrow> (int \<times> int) list \<Rightarrow> celda list \<Rightarrow>
   (int \<times> int) list \<Rightarrow> (int \<times> int) list \<times> celda list \<times> (int \<times> int) list" where
  "obtenerGrupoConexoBucle cs [] visitadas agrupadas celdasG origenes =
     (agrupadas, celdasG, origenes)"
| "obtenerGrupoConexoBucle cs (celda # cola) visitadas agrupadas celdasG origenes =
     (if posicionDe celda \<in> set visitadas then
        obtenerGrupoConexoBucle cs cola visitadas agrupadas celdasG origenes
      else
        (let visitadas' = visitadas @ [posicionDe celda];
             st = visitarRestricciones cs visitadas' (restricciones celda) (origenes, cola)
         in obtenerGrupoConexoBucle cs (snd st) visitadas' (agrupadas @ [posicionDe celda])
              (celdasG @ [celda]) (fst st)))"
  by pat_completeness auto
termination
proof (relation "measures
    [\<lambda>(cs, cola, vs, ag, cg, os). card (posicionDe ` (set cola \<union> set cs) - set vs),
     \<lambda>(cs, cola, vs, ag, cg, os). length cola]", goal_cases)
  case 1
  then show ?case by simp
next
  case (2 cs celda cola vs ag cg os)
  have "posicionDe ` (set cola \<union> set cs) - set vs
          \<subseteq> posicionDe ` (set (celda # cola) \<union> set cs) - set vs" by auto
  then have "card (posicionDe ` (set cola \<union> set cs) - set vs)
          \<le> card (posicionDe ` (set (celda # cola) \<union> set cs) - set vs)"
    by (intro card_mono) auto
  then show ?case by auto
next
  case (3 cs celda cola vs ag cg os vs' st)
  have sub: "set (snd st) \<subseteq> set cola \<union> set cs"
    using visitarRestricciones_cola [of cs vs' _ "(os, cola)"] 3(3) by simp
  have "posicionDe ` (set (snd st) \<union> set cs) - set vs'
          \<subset> posicionDe ` (set (celda # cola) \<union> set cs) - set vs"
    using sub 3(1) 3(2) by auto
  then have "card (posicionDe ` (set (snd st) \<union> set cs) - set vs')
          < card (posicionDe ` (set (celda # cola) \<union> set cs) - set vs)"
    by (intro psubset_card_mono) auto
  then show ?case by simp
qed

text \<open>
  A group: its cells and, for each constraint, the origin and the digit of the origin
  cell.  The origin of a constraint is a position of the grid (constraints are only
  built from positions of the grid), so the lookup of the origin cell never answers
  \<open>null\<close>.
\<close>

record grupoGlobal =
  celdasGrupo :: "celda list"
  restriccionesGrupo :: "((int \<times> int) \<times> int) list"

definition valorEn :: "tablero \<Rightarrow> int \<times> int \<Rightarrow> int" where
  "valorEn t p =
     (case obtenerCelda t (fst p) (snd p) of
        None \<Rightarrow> 0 | Some cr \<Rightarrow> numero (obtenerValorNumerico cr))"

definition obtenerGruposConectados :: "tablero \<Rightarrow> celda list \<Rightarrow> grupoGlobal list" where
  "obtenerGruposConectados t cs =
     snd (fold (\<lambda>c (agrupadas, grupos).
            if posicionDe c \<in> set agrupadas then (agrupadas, grupos)
            else if length (restricciones c) = 0 then (agrupadas, grupos)
            else (let r = obtenerGrupoConexoBucle cs [c] [] agrupadas [] []
                  in (fst r,
                      if length (fst (snd r)) > 0
                      then grupos @ [\<lparr>celdasGrupo = fst (snd r),
                                      restriccionesGrupo = map (\<lambda>p. (p, valorEn t p)) (snd (snd r))\<rparr>]
                      else grupos)))
          cs ([], []))"

text \<open>
  \<open>indiceCeldas[clave]\<close>: the index of a cell of the group, the last one written for
  its key.
\<close>

definition indiceCeldas :: "celda list \<Rightarrow> int \<times> int \<Rightarrow> nat option" where
  "indiceCeldas cs clave =
     fold (\<lambda>i acc. if posicionDe (cs ! i) = clave then Some i else acc) [0..<length cs] None"

definition celdasAfectadasEn :: "tablero \<Rightarrow> celda list \<Rightarrow> int \<times> int \<Rightarrow> nat list" where
  "celdasAfectadasEn t cs p =
     List.map_filter (\<lambda>c. indiceCeldas cs (posicionDe c))
       (sinRevelar (obtenerCeldasAdyacentes t (fst p) (snd p)))"

definition minasRestantesEn :: "tablero \<Rightarrow> (int \<times> int) \<times> int \<Rightarrow> int" where
  "minasRestantesEn t r = snd r - contarBanderas (obtenerCeldasAdyacentes t (fst (fst r)) (snd (fst r)))"

text \<open>
  \<open>Math.random\<close> is a stream of numbers; the model takes the stream as a function of
  the number of the call and threads the number of the next call.
\<close>

definition todasLasCombinaciones :: "nat \<Rightarrow> int list list" where
  "todasLasCombinaciones n =
     map (\<lambda>i. map (\<lambda>j. if bit i j then 1 else 0) [0..<n]) [0..<2 ^ n]"

definition unicos :: "'a list \<Rightarrow> 'a list" where
  \<comment> \<open>the elements of a \<open>Set\<close> in insertion order\<close>
  "unicos xs = fold (\<lambda>x acc. if x \<in> set acc then acc else acc @ [x]) xs []"

definition generarCombinacionesMuestreo :: "(nat \<Rightarrow> real) \<Rightarrow> nat \<Rightarrow> nat \<Rightarrow> nat \<Rightarrow> int list list" where
  "generarCombinacionesMuestreo azar k n muestras =
     unicos (map (\<lambda>i. map (\<lambda>j. if azar (k + i * n + j) < 0.5 then 1 else 0) [0..<n])
               [0..<muestras])"

definition generarCombinaciones :: "(nat \<Rightarrow> real) \<Rightarrow> nat \<Rightarrow> nat \<Rightarrow> int list list \<times> nat" where
  "generarCombinaciones azar k n =
     (if n > 10 then (generarCombinacionesMuestreo azar k n 1000, k + 1000 * n)
      else (todasLasCombinaciones n, k))"

definition cumpleRestriccion :: "tablero \<Rightarrow> celda list \<Rightarrow> int list \<Rightarrow> (int \<times> int) \<times> int \<Rightarrow> bool" where
  "cumpleRestriccion t cs combinacion r \<longleftrightarrow>
     fold (\<lambda>indice cuenta. cuenta + combinacion ! indice) (celdasAfectadasEn t cs (fst r)) 0
       = minasRestantesEn t r"

definition combinacionesValidas :: "tablero \<Rightarrow> grupoGlobal \<Rightarrow> int list list \<Rightarrow> int list list" where
  "combinacionesValidas t g combinaciones =
     filter (\<lambda>combinacion. list_all (cumpleRestriccion t (celdasGrupo g) combinacion)
                              (restriccionesGrupo g)) combinaciones"

definition frecuencias :: "nat \<Rightarrow> int list list \<Rightarrow> real list" where
  "frecuencias n validas =
     map (\<lambda>i. real_of_int (fold (\<lambda>combinacion s. s + combinacion ! i) validas 0)
              / real (length validas)) [0..<n]"

definition calcularProbabilidadesPorEnumeracion ::
  "(nat \<Rightarrow> real) \<Rightarrow> nat \<Rightarrow> tablero \<Rightarrow> grupoGlobal \<Rightarrow> real list option \<times> nat" where
  "calcularProbabilidadesPorEnumeracion azar k t g =
     (if length (celdasGrupo g) > 12 then (None, k)
      else (let gen = generarCombinaciones azar k (length (celdasGrupo g));
                validas = combinacionesValidas t g (fst gen)
            in (if length validas > 0 then Some (frecuencias (length (celdasGrupo g)) validas)
                else None, snd gen)))"

text \<open>
  The linear model for large groups: least squares through the normal equations, solved
  by \<open>resolverSistemaLineal\<close> (elimination below the pivot, then back substitution).
\<close>

definition productoATA :: "real list list \<Rightarrow> nat \<Rightarrow> real list list" where
  "productoATA a n =
     map (\<lambda>i. map (\<lambda>j. fold (\<lambda>k s. s + a ! k ! i * a ! k ! j) [0..<length a] 0) [0..<n]) [0..<n]"

definition productoATb :: "real list list \<Rightarrow> real list \<Rightarrow> nat \<Rightarrow> real list" where
  "productoATb a b n = map (\<lambda>i. fold (\<lambda>k s. s + a ! k ! i * b ! k) [0..<length a] 0) [0..<n]"

definition normalizarDesde :: "nat \<Rightarrow> real list \<Rightarrow> real list" where
  "normalizarDesde i xs =
     map (\<lambda>j. if j = i then 1 else if i < j then xs ! j / xs ! i else xs ! j) [0..<length xs]"

definition pasoSistemaLineal :: "nat \<Rightarrow> nat \<Rightarrow> real list list \<Rightarrow> real list list" where
  "pasoSistemaLineal n i a =
     (let maxRow = buscarPivote a n i;
          a1 = a[i := a ! maxRow, maxRow := a ! i]
      in if \<bar>a1 ! i ! i\<bar> < 1 / 10000000000 then a1
         else
           (let a2 = a1[i := normalizarDesde i (a1 ! i)]
            in fold (\<lambda>j b. b[j := restarFila i (b ! i) (b ! j)]) [i + 1..<n] a2))"

definition sustituir :: "nat \<Rightarrow> real list list \<Rightarrow> nat \<Rightarrow> real list \<Rightarrow> real list" where
  "sustituir n a i soluciones =
     soluciones[i := fold (\<lambda>j s. s - a ! i ! j * soluciones ! j) [i + 1..<n] (a ! i ! n)]"

definition resolverSistemaLineal :: "real list list \<Rightarrow> real list \<Rightarrow> real list" where
  "resolverSistemaLineal a b =
     (let n = length a;
          aumentada = map (\<lambda>i. a ! i @ [b ! i]) [0..<n];
          reducida = fold (pasoSistemaLineal n) [0..<n] aumentada
      in fold (sustituir n reducida) (rev [0..<n]) (replicate n 0))"

definition resolverMinimosCuadrados :: "real list list \<Rightarrow> real list \<Rightarrow> real list" where
  "resolverMinimosCuadrados a b =
     (let n = length (a ! 0)
      in resolverSistemaLineal (productoATA a n) (productoATb a b n))"

definition calcularProbabilidadesPorModeloLineal :: "tablero \<Rightarrow> grupoGlobal \<Rightarrow> real list" where
  "calcularProbabilidadesPorModeloLineal t g =
     (let cs = celdasGrupo g;
          matriz = map (\<lambda>r. map (\<lambda>i. if i \<in> set (celdasAfectadasEn t cs (fst r)) then 1 else 0)
                              [0..<length cs]) (restriccionesGrupo g);
          valores = map (\<lambda>r. real_of_int (minasRestantesEn t r)) (restriccionesGrupo g)
      in map (\<lambda>p. max 0 (min 1 p)) (resolverMinimosCuadrados matriz valores))"

definition aplicarProbabilidades :: "celda list \<Rightarrow> real list \<Rightarrow> real \<Rightarrow> tablero \<Rightarrow> tablero" where
  "aplicarProbabilidades cs ps conf t =
     fold (\<lambda>i. enCelda (cs ! i) (actualizarProbabilidades (ps ! i) conf ''probabilidad''))
       [0..<length ps] t"

definition procesarGrupoGlobal :: "(nat \<Rightarrow> real) \<Rightarrow> grupoGlobal \<Rightarrow> nat \<times> tablero \<Rightarrow> nat \<times> tablero" where
  "procesarGrupoGlobal azar g st =
     (let k = fst st; t = snd st
      in if length (celdasGrupo g) \<le> 12 then
           (let r = calcularProbabilidadesPorEnumeracion azar k t g
            in (snd r, case fst r of
                         None \<Rightarrow> t
                       | Some ps \<Rightarrow> aplicarProbabilidades (celdasGrupo g) ps 0.8 t))
         else (k, aplicarProbabilidades (celdasGrupo g)
                    (calcularProbabilidadesPorModeloLineal t g) 0.6 t))"

definition calcularProbabilidadesGlobales ::
  "(nat \<Rightarrow> real) \<Rightarrow> celda list \<Rightarrow> tablero \<Rightarrow> tablero" where
  "calcularProbabilidadesGlobales azar cs t =
     (let t1 = snd (fold (procesarGrupoGlobal azar) (obtenerGruposConectados t cs) (0, t))
      in fold (\<lambda>c. enCelda c (actualizarProbabilidades 0.1 0.4 ''aislada''))
           (filter (\<lambda>c. length (restricciones c) = 0) cs) t1)"

subsection \<open>Stage 4: the frontier\<close>

definition esFrontera :: "tablero \<Rightarrow> celda \<Rightarrow> bool" where
  "esFrontera t c \<longleftrightarrow> list_ex descubierta (obtenerCeldasAdyacentes t (fila c) (columna c))"

text \<open>The contribution of one revealed neighbour: (influence, weight) added to the totals.\<close>

definition influencia :: "tablero \<Rightarrow> celda \<Rightarrow> real \<times> real \<Rightarrow> real \<times> real" where
  "influencia t adyacente acc =
     (if tieneValorNumerico adyacente then
        (let ady = obtenerCeldasAdyacentes t (fila adyacente) (columna adyacente);
             n = length (libres ady);
             restantes = numero (obtenerValorNumerico adyacente) - contarBanderas ady
         in if n > 0 then
              (fst acc + (real_of_int restantes / real n) * (1 / real n), snd acc + 1 / real n)
            else acc)
      else acc)"

definition calcularFrontera :: "celda \<Rightarrow> tablero \<Rightarrow> tablero" where
  "calcularFrontera c t =
     (let reveladas = filter descubierta (obtenerCeldasAdyacentes t (fila c) (columna c));
          totales = fold (influencia t) reveladas (0, 0)
      in if snd totales > 0 then
           enCelda c (actualizarProbabilidades (fst totales / snd totales)
                        (min 0.7 (0.4 + 0.1 * real (length reveladas))) ''frontera'') t
         else t)"

definition reducirNoFrontera :: "celda \<Rightarrow> celda" where
  "reducirNoFrontera c =
     (if confianza (probabilidades c) < 0.5
      then actualizarProbabilidades (probabilidadMina (probabilidades c) * 0.85) 0.5
             ''no_frontera'' c
      else c)"

definition calcularProbabilidadesFrontera :: "celda list \<Rightarrow> tablero \<Rightarrow> tablero" where
  "calcularProbabilidadesFrontera cs t =
     (let t1 = fold calcularFrontera (filter (esFrontera t) cs) t
      in fold (\<lambda>c. enCelda c reducirNoFrontera) (filter (\<lambda>c. \<not> esFrontera t c) cs) t1)"

subsection \<open>Stage 5: the memory\<close>

definition factorHistorico :: "minaConocida \<Rightarrow> real" where
  "factorHistorico info =
     min 0.9 (min 0.8 (0.3 + real (ocurrencias info) * 0.1) + (if esReciente info then 0.1 else 0))"

definition confianzaHistorica :: "minaConocida \<Rightarrow> real" where
  "confianzaHistorica info =
     min 0.8 (min 0.7 (0.3 + real (ocurrencias info) * 0.05) + (if esReciente info then 0.1 else 0))"

definition integrarMina :: "minaConocida \<Rightarrow> celda \<Rightarrow> celda" where
  "integrarMina info c =
     (if ocurrencias info > 0 \<and> confianzaHistorica info > 0.4 \<and>
         confianzaHistorica info > confianza (probabilidades c) then
        (let probActual = probabilidadMina (probabilidades c);
             confActual = confianza (probabilidades c)
         in actualizarProbabilidades
              ((probActual * confActual + factorHistorico info * confianzaHistorica info)
                 / (confActual + confianzaHistorica info))
              (max confActual (confianzaHistorica info)) ''memoria'' c)
      else c)"

definition integrarMemoriaHistorica :: "celda list \<Rightarrow> gestorMemoria \<Rightarrow> tablero \<Rightarrow> tablero" where
  "integrarMemoriaHistorica cs gm t =
     (let mapa = obtenerMapaMinasConocidas gm
      in fold (\<lambda>c t. case map_of mapa (posicionDe c) of
                       None \<Rightarrow> t
                     | Some info \<Rightarrow> enCelda c (integrarMina info) t) cs t)"

subsection \<open>Stage 6: finalisation\<close>

definition identificarCaso :: "celda \<Rightarrow> celda" where
  "identificarCaso c =
     (let probabilidad = probabilidadMina (probabilidades c); conf = confianza (probabilidades c)
      in if probabilidad > 0.99 \<and> conf > 0.95 then actualizarProbabilidades 1 1 ''analisis100'' c
         else if probabilidad < 0.01 \<and> conf > 0.95 then actualizarProbabilidades 0 1 ''analisis100'' c
         else c)"

definition identificarCasosConCerteza :: "celda list \<Rightarrow> tablero \<Rightarrow> tablero" where
  "identificarCasosConCerteza cs t = fold (\<lambda>c. enCelda c identificarCaso) cs t"

definition minasFaltantesNormalizacion :: "tablero \<Rightarrow> real" where
  "minasFaltantesNormalizacion t = real_of_int (max 1 (estimacionMinas t - contadorBanderas t))"

definition debeNormalizar :: "tablero \<Rightarrow> bool" where
  "debeNormalizar t \<longleftrightarrow>
     \<bar>sumaProbabilidades (obtenerCeldasSinRevolar t) - minasFaltantesNormalizacion t\<bar>
       > 0.5 * minasFaltantesNormalizacion t"

definition factorEscala :: "tablero \<Rightarrow> real" where
  "factorEscala t =
     minasFaltantesNormalizacion t / max 0.1 (sumaProbabilidades (obtenerCeldasSinRevolar t))"

definition nuevaProb :: "real \<Rightarrow> celda \<Rightarrow> real" where
  "nuevaProb factor c = min 0.95 (max 0.05 (probabilidadMina (probabilidades c) * factor))"

definition normalizarCelda :: "real \<Rightarrow> celda \<Rightarrow> celda" where
  "normalizarCelda factor c =
     (if confianza (probabilidades c) < 0.95
      then actualizarProbabilidades (nuevaProb factor c) (confianza (probabilidades c))
             ''normalizado'' c
      else c)"

definition normalizarProbabilidades :: "tablero \<Rightarrow> tablero" where
  "normalizarProbabilidades t =
     (if debeNormalizar t then
        fold (\<lambda>c. enCelda c (normalizarCelda (factorEscala t))) (obtenerCeldasSinRevolar t) t
      else t)"


definition adyacenteVacia :: "tablero \<Rightarrow> celda \<Rightarrow> bool" where
  "adyacenteVacia t c \<longleftrightarrow>
     list_ex (\<lambda>a. descubierta a \<and> (valor a = Vacio \<or> valor a = Digito 0))
       (obtenerCeldasAdyacentes t (fila c) (columna c))"

definition esquinaConUno :: "tablero \<Rightarrow> celda \<Rightarrow> bool" where
  "esquinaConUno t c \<longleftrightarrow>
     esEsquina c \<and>
     length (sinRevelar (obtenerCeldasAdyacentes t (fila c) (columna c))) = 1 \<and>
     list_ex (\<lambda>a. descubierta a \<and> esNumero a 1) (obtenerCeldasAdyacentes t (fila c) (columna c))"

definition ajustarCasoEspecial :: "celda \<Rightarrow> tablero \<Rightarrow> tablero" where
  "ajustarCasoEspecial c t =
     (let t1 = (if adyacenteVacia t c
                then enCelda c (actualizarProbabilidades 0 1 ''analisis100'') t else t)
      in if esquinaConUno t c
         then enCelda c (actualizarProbabilidades 1 1 ''analisis100'') t1 else t1)"

definition ajustarCasosEspeciales :: "celda list \<Rightarrow> tablero \<Rightarrow> tablero" where
  "ajustarCasosEspeciales cs t = fold ajustarCasoEspecial cs t"

definition ajustarProbabilidadesFinales :: "celda list \<Rightarrow> tablero \<Rightarrow> tablero" where
  "ajustarProbabilidadesFinales cs t =
     ajustarCasosEspeciales cs (normalizarProbabilidades (identificarCasosConCerteza cs t))"

subsection \<open>The whole pass\<close>

definition calcularProbabilidades ::
  "(nat \<Rightarrow> real) \<Rightarrow> gestorMemoria option \<Rightarrow> tablero \<Rightarrow> tablero" where
  "calcularProbabilidades azar gestorMemoria t =
     (let t0 = actualizarRestricciones t;
          cs = obtenerCeldasSinRevolar t0;
          t1 = inicializarProbabilidadesBase cs t0;
          t2 = calcularProbabilidadesLocales cs t1;
          t3 = calcularProbabilidadesGlobales azar cs t2;
          t4 = calcularProbabilidadesFrontera cs t3;
          t5 = (case gestorMemoria of None \<Rightarrow> t4 | Some gm \<Rightarrow> integrarMemoriaHistorica cs gm t4)
      in ajustarProbabilidadesFinales cs t5)"


section \<open>Example grids\<close>

definition tableroConBandera :: tablero where
  "tableroConBandera = snd (establecerBandera 0 1 True (nuevoTablero 2 2))"

definition tableroCero :: tablero where
  "tableroCero = snd (establecerValorCelda 0 0 (Digito 0) (nuevoTablero 8 8))"

definition tableroDosDoses :: tablero where
  "tableroDosDoses =
     snd (establecerValorCelda 0 2 (Digito 2)
       (snd (establecerValorCelda 0 0 (Digito 2) (nuevoTablero 8 8))))"

text \<open>
  A 2 by 4 grid with four revealed 2s, at (0,2), (1,0), (1,1) and (1,2).  Both mine layouts
  \<open>{(0,0), (0,1), (0,3)}\<close> and \<open>{(0,0), (0,1), (1,3)}\<close> produce these numbers.
\<close>

definition tableroCuatroDoses :: tablero where
  "tableroCuatroDoses =
     snd (establecerValorCelda 1 2 (Digito 2)
       (snd (establecerValorCelda 1 1 (Digito 2)
         (snd (establecerValorCelda 1 0 (Digito 2)
           (snd (establecerValorCelda 0 2 (Digito 2) (nuevoTablero 2 4))))))))"

text \<open>The batch a run returns: position and rule of each flag; \<open>None\<close> when the run throws.\<close>

definition lote :: "error + gestorBanderas \<Rightarrow> (int \<times> int \<times> string) list option" where
  "lote r = (case r of Inl e \<Rightarrow> None
             | Inr g \<Rightarrow> Some (map (\<lambda>b. (filaB b, columnaB b, origenB b)) (banderasColocadas g)))"

text \<open>
  Two consecutive turns of \<open>Juego.realizarSiguienteMovimiento\<close> with no reveal between them:
  a run of the engine, \<open>procesarNuevasBanderas\<close> on its batch, and a second run of the same
  engine on the same grid.
\<close>

definition segundaVuelta :: "tablero \<Rightarrow> error + gestorBanderas" where
  "segundaVuelta t =
     (case colocarBanderasSeguras (nuevoGestorBanderas t) of
        Inl e \<Rightarrow> Inl e
      | Inr g \<Rightarrow> colocarBanderasSeguras
                   (g\<lparr>tableroG := procesarNuevasBanderas (banderasColocadas g) (tableroG g)\<rparr>))"





section \<open>How a pass of the engines changes the grid\<close>

definition confC :: "celda \<Rightarrow> real" where
  "confC c = confianza (probabilidades c)"

definition rangoC :: "celda \<Rightarrow> nat" where
  "rangoC c = jerarquia (origen (probabilidades c))"

text \<open>Two cells with the same position, state and geometry.\<close>

definition mismoEstado :: "celda \<Rightarrow> celda \<Rightarrow> bool" where
  "mismoEstado c c' \<longleftrightarrow>
     fila c' = fila c \<and> columna c' = columna c \<and> descubierta c' = descubierta c \<and>
     tieneBandera c' = tieneBandera c \<and> valor c' = valor c \<and> esEsquina c' = esEsquina c \<and>
     esBorde c' = esBorde c \<and> distanciaBorde c' = distanciaBorde c"

text \<open>A cell after updates of its estimate of confidence at most 0.8.\<close>

definition avanza :: "nat \<Rightarrow> celda \<Rightarrow> celda \<Rightarrow> bool" where
  "avanza k c c' \<longleftrightarrow>
     mismoEstado c c' \<and> restricciones c' = restricciones c \<and>
     (c' = c \<or>
      (confC c' \<le> 0.8 \<and> (confC c' = 0.8 \<longrightarrow> rangoC c' \<le> k) \<and>
       (confC c < confC c' \<or> (confC c = confC c' \<and> rangoC c < rangoC c'))))"

text \<open>A cell after updates of its estimate only.\<close>

definition soloEstimacion :: "celda \<Rightarrow> celda \<Rightarrow> bool" where
  "soloEstimacion c c' \<longleftrightarrow> mismoEstado c c' \<and> restricciones c' = restricciones c"

text \<open>A cell after a change of its constraints only.\<close>

definition soloRestricciones :: "celda \<Rightarrow> celda \<Rightarrow> bool" where
  "soloRestricciones c c' \<longleftrightarrow> mismoEstado c c' \<and> probabilidades c' = probabilidades c"

definition relTablero :: "(celda \<Rightarrow> celda \<Rightarrow> bool) \<Rightarrow> tablero \<Rightarrow> tablero \<Rightarrow> bool" where
  "relTablero R t t' \<longleftrightarrow>
     filas t' = filas t \<and> columnas t' = columnas t \<and>
     contadorBanderas t' = contadorBanderas t \<and>
     contadorDescubiertas t' = contadorDescubiertas t \<and>
     length (celdas t') = length (celdas t) \<and>
     (\<forall>i < length (celdas t). length (celdas t' ! i) = length (celdas t ! i) \<and>
        (\<forall>j < length (celdas t ! i). R (celdas t ! i ! j) (celdas t' ! i ! j)))"

abbreviation evoluciona :: "nat \<Rightarrow> tablero \<Rightarrow> tablero \<Rightarrow> bool" where
  "evoluciona k \<equiv> relTablero (avanza k)"

definition ceroCierto :: "celda \<Rightarrow> bool" where
  "ceroCierto y \<longleftrightarrow>
     probabilidadMina (probabilidades y) = 0 \<and> confianza (probabilidades y) = 1 \<and>
     origen (probabilidades y) = ''analisis100''"

definition hastaMemoria :: "(nat \<Rightarrow> real) \<Rightarrow> gestorMemoria option \<Rightarrow> tablero \<Rightarrow> tablero" where
  "hastaMemoria azar gestorMemoria t0 =
     (let cs = obtenerCeldasSinRevolar t0;
          t4 = calcularProbabilidadesFrontera cs
                 (calcularProbabilidadesGlobales azar cs
                    (calcularProbabilidadesLocales cs (inicializarProbabilidadesBase cs t0)))
      in case gestorMemoria of None \<Rightarrow> t4 | Some gm \<Rightarrow> integrarMemoriaHistorica cs gm t4)"

text \<open>What a cell stores of its estimate: probability, confidence and provenance.\<close>

definition estimacion :: "celda \<Rightarrow> real \<times> real \<times> string" where
  "estimacion c = (probabilidadMina (probabilidades c), confianza (probabilidades c),
                   origen (probabilidades c))"






section \<open>Basic facts about the grid\<close>

lemma obtenerCelda_valida:
  "obtenerCelda t f c = Some x \<Longrightarrow> esPosicionValida t f c"
  by (auto simp: obtenerCelda_def split: if_splits)

lemma obtenerCelda_campos [simp]:
  "obtenerCelda (t\<lparr>contadorDescubiertas := a\<rparr>) f c = obtenerCelda t f c"
  "obtenerCelda (t\<lparr>contadorBanderas := b\<rparr>) f c = obtenerCelda t f c"
  "obtenerCelda (t\<lparr>ultimoCambio := u\<rparr>) f c = obtenerCelda t f c"
  "obtenerCelda (t\<lparr>restriccionesActualizadas := r\<rparr>) f c = obtenerCelda t f c"
  by (simp_all add: obtenerCelda_def esPosicionValida_def)

lemma bienFormado_campos [simp]:
  "bienFormado (t\<lparr>contadorDescubiertas := a\<rparr>) = bienFormado t"
  "bienFormado (t\<lparr>contadorBanderas := b\<rparr>) = bienFormado t"
  "bienFormado (t\<lparr>ultimoCambio := u\<rparr>) = bienFormado t"
  "bienFormado (t\<lparr>restriccionesActualizadas := r\<rparr>) = bienFormado t"
  by (simp_all add: bienFormado_def)

lemma obtenerCelda_modificarCelda:
  assumes "bienFormado t" and "esPosicionValida t f c"
  shows "obtenerCelda (modificarCelda f c g t) f' c' =
           (if f' = f \<and> c' = c then Some (g (celdas t ! nat f ! nat c)) else obtenerCelda t f' c')"
proof (cases "esPosicionValida t f' c'")
  case False
  then show ?thesis using assms
    by (auto simp: obtenerCelda_def esPosicionValida_def modificarCelda_def)
next
  case True
  have lf: "nat f < length (celdas t)" "nat c < length (celdas t ! nat f)"
    using assms by (auto simp: bienFormado_def esPosicionValida_def)
  have lf': "nat f' < length (celdas t)" "nat c' < length (celdas t ! nat f')"
    using assms(1) True by (auto simp: bienFormado_def esPosicionValida_def)
  show ?thesis
  proof (cases "f' = f")
    case True
    then show ?thesis using lf lf' \<open>esPosicionValida t f' c'\<close> assms(2)
      by (auto simp: obtenerCelda_def esPosicionValida_def modificarCelda_def nth_list_update)
  next
    case False
    then have "nat f' \<noteq> nat f" using True assms(2) by (auto simp: esPosicionValida_def)
    then show ?thesis using False lf lf' True
      by (auto simp: obtenerCelda_def esPosicionValida_def modificarCelda_def nth_list_update)
  qed
qed

lemma length_fila_actualizada:
  "length (xss[r := (xss ! r)[c := v]] ! i) = length (xss ! i)"
proof (cases "i = r \<and> r < length xss")
  case True
  then show ?thesis by simp
next
  case False
  then show ?thesis by (cases "i = r") (simp_all add: list_update_beyond)
qed

lemma nth_fila_actualizada:
  "xss[r := (xss ! r)[c := v]] ! i ! j =
     (if i = r \<and> j = c \<and> r < length xss \<and> c < length (xss ! r) then v else xss ! i ! j)"
proof (cases "i = r \<and> r < length xss")
  case True
  then show ?thesis by (cases "j = c") (auto simp: nth_list_update list_update_beyond)
next
  case False
  then show ?thesis by (cases "i = r") (simp_all add: list_update_beyond)
qed

lemma bienFormado_modificarCelda:
  assumes "bienFormado t"
    and "\<And>x. fila (g x) = fila x \<and> columna (g x) = columna x"
  shows "bienFormado (modificarCelda f c g t)"
  using assms unfolding bienFormado_def modificarCelda_def
  by (simp add: length_fila_actualizada nth_fila_actualizada)

lemma modificarCelda_id: "(\<And>x. g x = x) \<Longrightarrow> modificarCelda f c g t = t"
  by (simp add: modificarCelda_def)

lemma normalizarCelda_no_cambia: "normalizarCelda factor c = c"
  by (simp add: normalizarCelda_def actualizarProbabilidades_def debeActualizar_def
      esOrigenMasConfiable_def jerarquia_def)

lemma normalizarProbabilidades_no_cambia: "normalizarProbabilidades t = t"
proof -
  have "fold (\<lambda>c. enCelda c (normalizarCelda k)) cs t = t" for k cs
    by (induction cs) (simp_all add: enCelda_def modificarCelda_id normalizarCelda_no_cambia)
  then show ?thesis by (simp add: normalizarProbabilidades_def)
qed

lemma bienFormado_nuevoTablero: "bienFormado (nuevoTablero nf nc)"
  by (simp add: bienFormado_def nuevoTablero_def inicializarTablero_def
      marcarCeldaEspecial_def nuevaCelda_def Let_def)

lemma en_todasLasCeldas:
  assumes "bienFormado t" and "obtenerCelda t f c = Some x"
  shows "x \<in> set (todasLasCeldas t)"
proof -
  have v: "esPosicionValida t f c" and x: "x = celdas t ! nat f ! nat c"
    using assms(2) by (auto simp: obtenerCelda_def split: if_splits)
  have "nat f < filas t" "nat c < columnas t"
    using v by (auto simp: esPosicionValida_def)
  then show ?thesis
    unfolding todasLasCeldas_def x
    by (auto intro!: bexI [of _ "nat f"] image_eqI [of _ _ "nat c"])
qed

lemma establecerValorCelda_valida:
  assumes wf: "bienFormado t" and v: "esPosicionValida t f c"
  defines "celda \<equiv> celdas t ! nat f ! nat c"
  shows "obtenerCelda t f c = Some celda"
    and "descubierta celda \<Longrightarrow> establecerValorCelda f c v t = (False, t)"
    and "\<not> descubierta celda \<Longrightarrow>
           (\<exists>t'. establecerValorCelda f c v t = (True, t') \<and>
               obtenerCelda t' f c = Some (establecerValor v celda) \<and>
               \<not> restriccionesActualizadas t' \<and>
               contadorDescubiertas t' = contadorDescubiertas t + 1 \<and>
               bienFormado t' \<and>
               (\<forall>f' c'. (f', c') \<noteq> (f, c) \<longrightarrow> obtenerCelda t' f' c' = obtenerCelda t f' c'))"
proof -
  show g: "obtenerCelda t f c = Some celda"
    using v by (simp add: obtenerCelda_def celda_def)
  show "descubierta celda \<Longrightarrow> establecerValorCelda f c v t = (False, t)"
    by (simp add: establecerValorCelda_def g)
  assume nd: "\<not> descubierta celda"
  let ?t' = "(modificarCelda f c (establecerValor v) t)
               \<lparr>contadorDescubiertas := contadorDescubiertas t + 1,
                ultimoCambio := CambioDescubierta f c v,
                restriccionesActualizadas := False\<rparr>"
  have pres: "\<And>x. fila (establecerValor v x) = fila x \<and> columna (establecerValor v x) = columna x"
    by (simp add: establecerValor_def)
  have e: "establecerValorCelda f c v t = (True, ?t')"
    using nd by (simp add: establecerValorCelda_def g)
  have wf': "bienFormado ?t'"
    using wf bienFormado_modificarCelda [OF _ pres] by simp
  have cnt: "contadorDescubiertas ?t' = contadorDescubiertas t + 1"
    by (simp add: modificarCelda_def)
  have get: "obtenerCelda ?t' f' c' =
               (if f' = f \<and> c' = c then Some (establecerValor v celda) else obtenerCelda t f' c')"
    for f' c'
    using obtenerCelda_modificarCelda [OF wf v] by (simp add: celda_def)
  show "\<exists>t'. establecerValorCelda f c v t = (True, t') \<and>
               obtenerCelda t' f c = Some (establecerValor v celda) \<and>
               \<not> restriccionesActualizadas t' \<and>
               contadorDescubiertas t' = contadorDescubiertas t + 1 \<and>
               bienFormado t' \<and>
               (\<forall>f' c'. (f', c') \<noteq> (f, c) \<longrightarrow> obtenerCelda t' f' c' = obtenerCelda t f' c')"
    apply (rule exI [of _ ?t'])
    using e wf' cnt get by auto
qed

lemma establecerBanderaCelda_quitar: "establecerBanderaCelda False x = x\<lparr>tieneBandera := False\<rparr>"
  by (simp add: establecerBanderaCelda_def)

lemma celda_nuevo_2x2:
  "obtenerCelda (nuevoTablero 2 2) 0 1 = Some (marcarCeldaEspecial 2 2 (nuevaCelda 0 1))"
  by (simp add: obtenerCelda_def esPosicionValida_def nuevoTablero_def inicializarTablero_def upt_rec)

lemma tableroConBandera_bienFormado: "bienFormado tableroConBandera"
proof -
  have pres: "\<And>y. fila (establecerBanderaCelda True y) = fila y \<and>
                    columna (establecerBanderaCelda True y) = columna y"
    by (simp add: establecerBanderaCelda_def)
  have nd: "\<not> descubierta (marcarCeldaEspecial 2 2 (nuevaCelda 0 1))"
    "\<not> tieneBandera (marcarCeldaEspecial 2 2 (nuevaCelda 0 1))"
    by (simp_all add: marcarCeldaEspecial_def nuevaCelda_def Let_def)
  show ?thesis
    unfolding tableroConBandera_def
    using bienFormado_modificarCelda [OF bienFormado_nuevoTablero [of 2 2] pres, of 0 1] nd
    by (simp add: establecerBandera_def celda_nuevo_2x2)
qed

lemma tableroConBandera_celda:
  "obtenerCelda tableroConBandera 0 1
     = Some (establecerBanderaCelda True (marcarCeldaEspecial 2 2 (nuevaCelda 0 1)))"
proof -
  have v: "esPosicionValida (nuevoTablero 2 2) 0 1"
    by (simp add: esPosicionValida_def nuevoTablero_def)
  have nd: "\<not> descubierta (marcarCeldaEspecial 2 2 (nuevaCelda 0 1))"
    "\<not> tieneBandera (marcarCeldaEspecial 2 2 (nuevaCelda 0 1))"
    by (simp_all add: marcarCeldaEspecial_def nuevaCelda_def Let_def)
  have c: "celdas (nuevoTablero 2 2) ! nat 0 ! nat 1 = marcarCeldaEspecial 2 2 (nuevaCelda 0 1)"
    using celda_nuevo_2x2 by (simp add: obtenerCelda_def v)
  show ?thesis
    unfolding tableroConBandera_def
    using obtenerCelda_modificarCelda [OF bienFormado_nuevoTablero [of 2 2] v, of "establecerBanderaCelda True" 0 1] nd c
    by (simp add: establecerBandera_def celda_nuevo_2x2)
qed

lemma todas_nuevo: "todasLasCeldas (nuevoTablero 8 8) = concat (inicializarTablero 8 8)"
  apply (simp add: todasLasCeldas_def nuevoTablero_def inicializarTablero_def)
  apply (simp add: upt_rec)
  done

lemma estimacion_8x8: "estimacionMinas (nuevoTablero 8 8) = 12"
  by (simp add: estimacionMinas_def nuevoTablero_def)

lemma suma_8x8: "sumaProbabilidades (obtenerCeldasSinRevolar (nuevoTablero 8 8)) = 32"
  apply (simp add: obtenerCeldasSinRevolar_def todas_nuevo)
  apply (simp add: inicializarTablero_def sumaProbabilidades_def upt_rec marcarCeldaEspecial_def nuevaCelda_def probabilidadesIniciales_def)
  done


section \<open>Facts about the stages of the probability engine\<close>

lemma mismoEstado_refl [simp]: "mismoEstado c c"
  by (simp add: mismoEstado_def)

lemma mismoEstado_trans: "mismoEstado a b \<Longrightarrow> mismoEstado b c \<Longrightarrow> mismoEstado a c"
  by (simp add: mismoEstado_def)

lemma avanza_refl [simp]: "avanza k c c"
  by (simp add: avanza_def)

lemma avanza_trans:
  assumes "avanza k a b" and "avanza k b c"
  shows "avanza k a c"
proof -
  have base: "mismoEstado a c" "restricciones c = restricciones a"
    using assms mismoEstado_trans unfolding avanza_def by auto
  show ?thesis
  proof (cases "b = a \<or> c = b")
    case True
    then show ?thesis using assms by auto
  next
    case False
    then have ab: "confC b \<le> 0.8" "confC a < confC b \<or> (confC a = confC b \<and> rangoC a < rangoC b)"
      and bc: "confC c \<le> 0.8" "confC c = 0.8 \<longrightarrow> rangoC c \<le> k"
        "confC b < confC c \<or> (confC b = confC c \<and> rangoC b < rangoC c)"
      using assms unfolding avanza_def by auto
    have "confC a < confC c \<or> (confC a = confC c \<and> rangoC a < rangoC c)"
      using ab(2) bc(3) by auto
    then show ?thesis using base bc unfolding avanza_def by blast
  qed
qed

lemma avanza_mono: "avanza k c c' \<Longrightarrow> k \<le> k' \<Longrightarrow> avanza k' c c'"
  unfolding avanza_def by auto

lemma avanza_actualizar:
  assumes "cf \<le> 0.8" and "cf = 0.8 \<longrightarrow> jerarquia og \<le> k"
  shows "avanza k c (actualizarProbabilidades pm cf og c)"
  using assms
  by (auto simp: avanza_def actualizarProbabilidades_def debeActualizar_def
      esOrigenMasConfiable_def mismoEstado_def confC_def rangoC_def Let_def)

lemma soloEstimacion_refl [simp]: "soloEstimacion c c"
  by (simp add: soloEstimacion_def)

lemma soloEstimacion_trans: "soloEstimacion a b \<Longrightarrow> soloEstimacion b c \<Longrightarrow> soloEstimacion a c"
  using mismoEstado_trans by (auto simp: soloEstimacion_def)

lemma soloEstimacion_actualizar: "soloEstimacion c (actualizarProbabilidades pm cf og c)"
  by (simp add: soloEstimacion_def actualizarProbabilidades_def mismoEstado_def Let_def)

lemma avanza_soloEstimacion: "avanza k c c' \<Longrightarrow> soloEstimacion c c'"
  by (simp add: avanza_def soloEstimacion_def)

lemma relTablero_refl: "(\<And>c. R c c) \<Longrightarrow> relTablero R t t"
  by (simp add: relTablero_def)

lemma relTablero_trans:
  assumes "\<And>a b c. R a b \<Longrightarrow> R b c \<Longrightarrow> R a c"
    and "relTablero R a b" and "relTablero R b c"
  shows "relTablero R a c"
proof -
  have "R (celdas a ! i ! j) (celdas c ! i ! j)"
    if "i < length (celdas a)" "j < length (celdas a ! i)" for i j
  proof -
    have "R (celdas a ! i ! j) (celdas b ! i ! j)" "R (celdas b ! i ! j) (celdas c ! i ! j)"
      using assms(2,3) that unfolding relTablero_def by auto
    then show ?thesis by (rule assms(1))
  qed
  then show ?thesis using assms(2,3) unfolding relTablero_def by auto
qed

lemma relTablero_mono: "relTablero R t t' \<Longrightarrow> (\<And>c c'. R c c' \<Longrightarrow> S c c') \<Longrightarrow> relTablero S t t'"
  unfolding relTablero_def by blast

lemma celda_enCelda:
  "celdas (enCelda x g t) ! i ! j =
     (if i = nat (fila x) \<and> j = nat (columna x) \<and> i < length (celdas t) \<and> j < length (celdas t ! i)
      then g (celdas t ! i ! j) else celdas t ! i ! j)"
  by (auto simp: enCelda_def modificarCelda_def nth_fila_actualizada)

lemma relTablero_enCelda:
  assumes "\<And>x. R x (g x)" and "\<And>x. R x x"
  shows "relTablero R t (enCelda c g t)"
  using assms
  by (simp add: relTablero_def celda_enCelda)
     (simp add: enCelda_def modificarCelda_def length_fila_actualizada)

lemma relTablero_fold:
  assumes "\<And>a b c. R a b \<Longrightarrow> R b c \<Longrightarrow> R a c" and "\<And>c. R c c"
    and "\<And>x t. x \<in> set xs \<Longrightarrow> relTablero R t (f x t)"
  shows "relTablero R t (fold f xs t)"
  using assms(3)
proof (induction xs arbitrary: t)
  case Nil
  then show ?case by (simp add: relTablero_refl assms(2))
next
  case (Cons x xs)
  have "relTablero R t (f x t)" using Cons.prems by simp
  moreover have "relTablero R (f x t) (fold f xs (f x t))"
    using Cons.IH Cons.prems by simp
  ultimately show ?case using relTablero_trans [OF assms(1)] by simp
qed

lemma evoluciona_refl [simp]: "evoluciona k t t"
  by (simp add: relTablero_refl)

lemma evoluciona_trans: "evoluciona k a b \<Longrightarrow> evoluciona k b c \<Longrightarrow> evoluciona k a c"
  using relTablero_trans [of "avanza k"] avanza_trans by blast

lemma evoluciona_enCelda: "(\<And>x. avanza k x (g x)) \<Longrightarrow> evoluciona k t (enCelda c g t)"
  by (rule relTablero_enCelda) simp_all

lemma evoluciona_fold:
  "(\<And>x t. x \<in> set xs \<Longrightarrow> evoluciona k t (f x t)) \<Longrightarrow> evoluciona k t (fold f xs t)"
  by (rule relTablero_fold [of "avanza k"]) (auto intro: avanza_trans)

lemma evoluciona_mono: "evoluciona k t t' \<Longrightarrow> k \<le> k' \<Longrightarrow> evoluciona k' t t'"
  using relTablero_mono [of "avanza k" t t' "avanza k'"] avanza_mono by blast

lemma evoluciona_inicializar: "evoluciona 4 t (inicializarProbabilidadesBase cs t)"
  unfolding inicializarProbabilidadesBase_def
  by (intro evoluciona_fold evoluciona_enCelda)
     (auto simp: inicializarCelda_def intro!: avanza_actualizar)

lemma confianzaLocal_cota: "n > 0 \<Longrightarrow> confianzaLocal n \<le> 0.8"
proof -
  assume "n > 0"
  then have "1 \<le> sqrt (real n)" by simp
  then have "0.3 / sqrt (real n) \<le> 0.3" by (simp add: divide_le_eq)
  then show ?thesis by (simp add: confianzaLocal_def)
qed

lemma evoluciona_locales: "evoluciona 7 t (calcularProbabilidadesLocales cs t)"
  unfolding calcularProbabilidadesLocales_def
proof (intro evoluciona_fold)
  fix g t
  show "evoluciona 7 t (procesarGrupoLocal g t)"
    unfolding procesarGrupoLocal_def Let_def
    by (auto intro!: evoluciona_fold evoluciona_enCelda avanza_actualizar confianzaLocal_cota
        simp: jerarquia_def)
qed

lemma evoluciona_aplicar:
  assumes "cf \<le> 0.8"
  shows "evoluciona 4 t (aplicarProbabilidades cs ps cf t)"
  unfolding aplicarProbabilidades_def
  using assms
  by (intro evoluciona_fold evoluciona_enCelda avanza_actualizar) (auto simp: jerarquia_def)

lemma evoluciona_procesarGrupoGlobal:
  "evoluciona 4 (snd st) (snd (procesarGrupoGlobal azar g st))"
  unfolding procesarGrupoGlobal_def Let_def
  by (auto simp: evoluciona_aplicar split: option.splits)

lemma evoluciona_fold_snd:
  assumes "\<And>x st. evoluciona k (snd st) (snd (f x st))"
  shows "evoluciona k (snd st) (snd (fold f xs st))"
proof (induction xs arbitrary: st)
  case Nil
  then show ?case by simp
next
  case (Cons x xs)
  show ?case using evoluciona_trans [OF assms [of st x] Cons.IH [of "f x st"]] by simp
qed

lemma evoluciona_globales: "evoluciona 4 t (calcularProbabilidadesGlobales azar cs t)"
proof -
  have a: "evoluciona 4 t (snd (fold (procesarGrupoGlobal azar) gs (0, t)))" for gs
    using evoluciona_fold_snd [of 4 "procesarGrupoGlobal azar" "(0, t)" gs]
      evoluciona_procesarGrupoGlobal by simp
  have b: "evoluciona 4 t1 (fold (\<lambda>c. enCelda c (actualizarProbabilidades 0.1 0.4 ''aislada'')) xs t1)"
    for xs t1
    by (intro evoluciona_fold evoluciona_enCelda avanza_actualizar) auto
  show ?thesis
    unfolding calcularProbabilidadesGlobales_def Let_def
    using evoluciona_trans [OF a b] by simp
qed

lemma evoluciona_frontera: "evoluciona 4 t (calcularProbabilidadesFrontera cs t)"
proof -
  have m: "min (0.7::real) x \<le> 0.8" for x by (simp add: min_le_iff_disj)
  have a: "evoluciona 4 t1 (calcularFrontera c t1)" for c t1
    unfolding calcularFrontera_def Let_def
    by (auto intro!: evoluciona_enCelda avanza_actualizar m simp: jerarquia_def)
  have b: "avanza 4 x (reducirNoFrontera x)" for x
    unfolding reducirNoFrontera_def by (auto intro!: avanza_actualizar)
  show ?thesis
    unfolding calcularProbabilidadesFrontera_def Let_def
    by (rule evoluciona_trans [OF evoluciona_fold evoluciona_fold])
       (auto intro!: a evoluciona_enCelda b)
qed

lemma confianzaHistorica_cota: "confianzaHistorica info \<le> 0.8"
proof -
  have "min (0.8::real) x \<le> 0.8" for x by (rule min.cobounded1)
  then show ?thesis unfolding confianzaHistorica_def by blast
qed

lemma avanza_integrarMina: "avanza 4 x (integrarMina info x)"
proof -
  have "max (confianza (probabilidades x)) (confianzaHistorica info) \<le> 0.8"
    if "confianzaHistorica info > confianza (probabilidades x)"
    using that confianzaHistorica_cota [of info] by simp
  then show ?thesis
    unfolding integrarMina_def Let_def
    by (auto intro!: avanza_actualizar simp: jerarquia_def)
qed

lemma evoluciona_memoria: "evoluciona 4 t (integrarMemoriaHistorica cs gm t)"
  unfolding integrarMemoriaHistorica_def Let_def
  by (intro evoluciona_fold)
     (auto split: option.splits intro!: evoluciona_enCelda avanza_integrarMina)

subsection \<open>What a relation between grids preserves\<close>

lemma relTablero_bienFormado:
  assumes "relTablero R t t'" and "\<And>c c'. R c c' \<Longrightarrow> mismoEstado c c'" and "bienFormado t"
  shows "bienFormado t'"
proof -
  have len: "length (celdas t) = filas t" "\<And>i. i < filas t \<Longrightarrow> length (celdas t ! i) = columnas t"
    using assms(3) unfolding bienFormado_def by auto
  have pos: "fila (celdas t' ! i ! j) = int i \<and> columna (celdas t' ! i ! j) = int j"
    if "i < filas t" "j < columnas t" for i j
  proof -
    have "R (celdas t ! i ! j) (celdas t' ! i ! j)"
      using assms(1) that len unfolding relTablero_def by simp
    then have "mismoEstado (celdas t ! i ! j) (celdas t' ! i ! j)" by (rule assms(2))
    moreover have "fila (celdas t ! i ! j) = int i \<and> columna (celdas t ! i ! j) = int j"
      using assms(3) that unfolding bienFormado_def by simp
    ultimately show ?thesis by (simp add: mismoEstado_def)
  qed
  have "length (celdas t') = filas t'" "filas t' = filas t" "columnas t' = columnas t"
    "\<And>i. i < filas t \<Longrightarrow> length (celdas t' ! i) = columnas t"
    using assms(1) len unfolding relTablero_def by auto
  then show ?thesis
    using pos unfolding bienFormado_def by auto
qed

lemma relTablero_valida:
  "relTablero R t t' \<Longrightarrow> esPosicionValida t' f c = esPosicionValida t f c"
  by (simp add: relTablero_def esPosicionValida_def)

lemma relTablero_celda:
  assumes "relTablero R t t'" and "bienFormado t" and "esPosicionValida t f c"
  shows "R (celdas t ! nat f ! nat c) (celdas t' ! nat f ! nat c)"
proof -
  have "nat f < length (celdas t)" "nat c < length (celdas t ! nat f)"
    using assms(2,3) by (auto simp: bienFormado_def esPosicionValida_def)
  then show ?thesis using assms(1) unfolding relTablero_def by simp
qed

lemma relTablero_obtenerCelda:
  assumes "relTablero R t t'" and "bienFormado t"
  shows "rel_option R (obtenerCelda t f c) (obtenerCelda t' f c)"
  using relTablero_celda [OF assms] relTablero_valida [OF assms(1)]
  by (simp add: obtenerCelda_def)

lemma list_all2_concat_map:
  assumes "\<And>x. x \<in> set xs \<Longrightarrow> list_all2 R (f x) (g x)"
  shows "list_all2 R (concat (map f xs)) (concat (map g xs))"
  using assms by (induction xs) (auto intro: list_all2_appendI)

lemma relTablero_adyacentes:
  assumes "relTablero R t t'" and "bienFormado t"
  shows "list_all2 R (obtenerCeldasAdyacentes t f c) (obtenerCeldasAdyacentes t' f c)"
  unfolding obtenerCeldasAdyacentes_def
proof (rule list_all2_concat_map)
  fix d assume "d \<in> set desplazamientos"
  obtain i j where d: "d = (i, j)" by (cases d)
  have "rel_option R (obtenerCelda t (f + i) (c + j)) (obtenerCelda t' (f + i) (c + j))"
    by (rule relTablero_obtenerCelda [OF assms])
  then show "list_all2 R (case d of (i, j) \<Rightarrow> case obtenerCelda t (f + i) (c + j) of
                             None \<Rightarrow> [] | Some x \<Rightarrow> [x])
               (case d of (i, j) \<Rightarrow> case obtenerCelda t' (f + i) (c + j) of
                             None \<Rightarrow> [] | Some x \<Rightarrow> [x])"
    unfolding d by (auto elim!: option.rel_cases)
qed

lemma list_all2_list_ex:
  assumes "list_all2 R xs ys" and "\<And>x y. R x y \<Longrightarrow> P x = Q y"
  shows "list_ex P xs = list_ex Q ys"
  using assms by (induction rule: list_all2_induct) auto

lemma list_all2_filter_length:
  assumes "list_all2 R xs ys" and "\<And>x y. R x y \<Longrightarrow> P x = Q y"
  shows "length (filter P xs) = length (filter Q ys)"
  using assms by (induction rule: list_all2_induct) auto

lemma relTablero_todas:
  assumes "relTablero R t t'" and "bienFormado t"
  shows "list_all2 R (todasLasCeldas t) (todasLasCeldas t')"
proof -
  have cols: "columnas t' = columnas t" and fils: "filas t' = filas t"
    using assms(1) by (simp_all add: relTablero_def)
  have "list_all2 R (map (\<lambda>k. celdas t ! f ! k) [0..<columnas t])
                    (map (\<lambda>k. celdas t' ! f ! k) [0..<columnas t])"
    if "f \<in> set [0..<filas t]" for f
    using that assms unfolding relTablero_def bienFormado_def
    by (simp add: list_all2_conv_all_nth)
  then show ?thesis
    unfolding todasLasCeldas_def cols fils by (rule list_all2_concat_map)
qed

subsection \<open>Bringing the constraints up to date\<close>

lemma soloRestricciones_refl [simp]: "soloRestricciones c c"
  by (simp add: soloRestricciones_def)

lemma soloRestricciones_trans:
  "soloRestricciones a b \<Longrightarrow> soloRestricciones b c \<Longrightarrow> soloRestricciones a c"
  using mismoEstado_trans by (auto simp: soloRestricciones_def)

lemma soloRestricciones_agregar: "soloRestricciones x (agregarRestriccion r x)"
  by (simp add: soloRestricciones_def agregarRestriccion_def mismoEstado_def)

lemma relTablero_actualizadas [simp]:
  "relTablero R t (t'\<lparr>restriccionesActualizadas := b\<rparr>) = relTablero R t t'"
  by (simp add: relTablero_def)

lemma relTablero_limpiar:
  assumes "bienFormado t"
  shows "relTablero soloRestricciones t (limpiarRestricciones t)"
  using assms
  by (simp add: relTablero_def limpiarRestricciones_def bienFormado_def
      soloRestricciones_def mismoEstado_def)

lemma relTablero_modificar_agregar:
  "relTablero soloRestricciones t (modificarCelda f c (agregarRestriccion r) t)"
  unfolding relTablero_def modificarCelda_def
  by (simp add: length_fila_actualizada nth_fila_actualizada soloRestricciones_agregar)

lemma relTablero_restringirDesde:
  "relTablero soloRestricciones t (restringirDesde p t)"
proof -
  have "relTablero soloRestricciones t
          (fold (\<lambda>c. modificarCelda (fila c) (columna c) (agregarRestriccion r)) xs t)" for r xs
    by (rule relTablero_fold [of soloRestricciones])
       (auto intro: soloRestricciones_trans relTablero_modificar_agregar)
  then show ?thesis
    unfolding restringirDesde_def Let_def
    by (auto simp: relTablero_refl)
qed

lemma relTablero_actualizarRestricciones:
  assumes "bienFormado t"
  shows "relTablero soloRestricciones t (actualizarRestricciones t)"
proof -
  have "relTablero soloRestricciones t' (fold restringirDesde ps t')" for ps t'
    by (rule relTablero_fold [of soloRestricciones])
       (auto intro: soloRestricciones_trans relTablero_restringirDesde)
  from relTablero_trans [of soloRestricciones, OF _ relTablero_limpiar [OF assms] this]
  show ?thesis
    unfolding actualizarRestricciones_def
    by (auto simp: relTablero_refl intro: soloRestricciones_trans)
qed

lemma soloRestricciones_estado: "soloRestricciones c c' \<Longrightarrow> mismoEstado c c'"
  by (simp add: soloRestricciones_def)

lemma avanza_estado: "avanza k c c' \<Longrightarrow> mismoEstado c c'"
  by (simp add: avanza_def)

lemma bienFormado_actualizarRestricciones:
  "bienFormado t \<Longrightarrow> bienFormado (actualizarRestricciones t)"
  using relTablero_bienFormado [OF relTablero_actualizarRestricciones soloRestricciones_estado]
  by blast

subsection \<open>One cell through a stage\<close>

lemma celda_fold_enCelda_estable:
  assumes "\<And>x. x \<in> set xs \<Longrightarrow> g x y = y" and "celdas t ! i ! j = y"
  shows "celdas (fold (\<lambda>x. enCelda x (g x)) xs t) ! i ! j = y"
  using assms
proof (induction xs arbitrary: t)
  case Nil
  then show ?case by simp
next
  case (Cons x xs)
  have "g x y = y" using Cons.prems by simp
  then have "celdas (enCelda x (g x) t) ! i ! j = y"
    using Cons.prems(2) by (auto simp: celda_enCelda)
  then show ?case using Cons.IH [of "enCelda x (g x) t"] Cons.prems by simp
qed

lemma soloEstimacion_estado: "soloEstimacion c c' \<Longrightarrow> mismoEstado c c'"
  by (simp add: soloEstimacion_def)

lemma relTablero_soloEstimacion_enCelda:
  "(\<And>x. soloEstimacion x (g x)) \<Longrightarrow> relTablero soloEstimacion t (enCelda c g t)"
  by (rule relTablero_enCelda) simp_all

lemma relTablero_soloEstimacion_trans:
  "relTablero soloEstimacion a b \<Longrightarrow> relTablero soloEstimacion b c \<Longrightarrow>
   relTablero soloEstimacion a c"
  using relTablero_trans [of soloEstimacion] soloEstimacion_trans by blast

lemma evoluciona_soloEstimacion: "evoluciona k t t' \<Longrightarrow> relTablero soloEstimacion t t'"
  using relTablero_mono [of "avanza k" t t' soloEstimacion] avanza_soloEstimacion by blast

lemma identificarCaso_estable: "confC y \<le> 0.95 \<Longrightarrow> identificarCaso y = y"
  by (simp add: identificarCaso_def confC_def Let_def)

lemma soloEstimacion_identificarCaso: "soloEstimacion y (identificarCaso y)"
  by (simp add: identificarCaso_def Let_def soloEstimacion_actualizar)

lemma relTablero_identificar:
  "relTablero soloEstimacion t (identificarCasosConCerteza cs t)"
  unfolding identificarCasosConCerteza_def
  by (rule relTablero_fold [of soloEstimacion])
     (auto intro: soloEstimacion_trans relTablero_soloEstimacion_enCelda
        soloEstimacion_identificarCaso)

lemma celda_identificar:
  assumes "confC (celdas t ! i ! j) \<le> 0.95"
  shows "celdas (identificarCasosConCerteza cs t) ! i ! j = celdas t ! i ! j"
  unfolding identificarCasosConCerteza_def
  using celda_fold_enCelda_estable [of cs "\<lambda>x. identificarCaso" "celdas t ! i ! j" t i j]
    identificarCaso_estable [OF assms] by simp

text \<open>The two predicates of the last stage only read state that no stage writes.\<close>

lemma esNumero_estado: "mismoEstado x y \<Longrightarrow> esNumero y n = esNumero x n"
  by (auto simp: mismoEstado_def esNumero_def tieneValorNumerico_def obtenerValorNumerico_def
      split: valor.splits)

lemma adyacenteVacia_rel:
  assumes "relTablero R t t'" and "\<And>c c'. R c c' \<Longrightarrow> mismoEstado c c'" and "bienFormado t"
  shows "adyacenteVacia t' x = adyacenteVacia t x"
  unfolding adyacenteVacia_def
  by (rule list_all2_list_ex [OF relTablero_adyacentes [OF assms(1,3)], symmetric])
     (auto dest!: assms(2) simp: mismoEstado_def)

lemma esquinaConUno_rel:
  assumes "relTablero R t t'" and "\<And>c c'. R c c' \<Longrightarrow> mismoEstado c c'" and "bienFormado t"
  shows "esquinaConUno t' x = esquinaConUno t x"
proof -
  have a: "list_all2 R (obtenerCeldasAdyacentes t (fila x) (columna x))
             (obtenerCeldasAdyacentes t' (fila x) (columna x))"
    by (rule relTablero_adyacentes [OF assms(1,3)])
  have b: "length (sinRevelar (obtenerCeldasAdyacentes t (fila x) (columna x)))
         = length (sinRevelar (obtenerCeldasAdyacentes t' (fila x) (columna x)))"
    unfolding sinRevelar_def
    by (rule list_all2_filter_length [OF a]) (auto dest!: assms(2) simp: mismoEstado_def)
  have c: "list_ex (\<lambda>a. descubierta a \<and> esNumero a 1) (obtenerCeldasAdyacentes t (fila x) (columna x))
         = list_ex (\<lambda>a. descubierta a \<and> esNumero a 1) (obtenerCeldasAdyacentes t' (fila x) (columna x))"
  proof (rule list_all2_list_ex [OF a])
    fix u v assume "R u v"
    then have m: "mismoEstado u v" by (rule assms(2))
    then show "(descubierta u \<and> esNumero u 1) = (descubierta v \<and> esNumero v 1)"
      using esNumero_estado [OF m, of 1] by (simp add: mismoEstado_def)
  qed
  show ?thesis unfolding esquinaConUno_def using b c by simp
qed

lemma relTablero_ajustarCasoEspecial:
  "relTablero soloEstimacion t (ajustarCasoEspecial x t)"
  unfolding ajustarCasoEspecial_def Let_def
  by (auto intro: relTablero_soloEstimacion_trans relTablero_soloEstimacion_enCelda
      soloEstimacion_actualizar simp: relTablero_refl)

lemma ceroCierto_estable:
  "ceroCierto y \<Longrightarrow> actualizarProbabilidades pm 1 ''analisis100'' y = y"
  by (simp add: ceroCierto_def actualizarProbabilidades_def debeActualizar_def
      esOrigenMasConfiable_def)

lemma ceroCierto_actualizar:
  "confC y \<le> 0.95 \<Longrightarrow> ceroCierto (actualizarProbabilidades 0 1 ''analisis100'' y)"
  by (simp add: ceroCierto_def actualizarProbabilidades_def debeActualizar_def confC_def Let_def)

lemma longitud_enCelda [simp]:
  "length (celdas (enCelda x g t)) = length (celdas t)"
  "length (celdas (enCelda x g t) ! i) = length (celdas t ! i)"
  by (simp_all add: enCelda_def modificarCelda_def length_fila_actualizada)

lemma celda_ajustarCasoEspecial:
  "celdas (ajustarCasoEspecial x t) ! i ! j =
     (if i = nat (fila x) \<and> j = nat (columna x) \<and> i < length (celdas t) \<and> j < length (celdas t ! i)
      then (if esquinaConUno t x then actualizarProbabilidades 1 1 ''analisis100'' else id)
             ((if adyacenteVacia t x then actualizarProbabilidades 0 1 ''analisis100'' else id)
                (celdas t ! i ! j))
      else celdas t ! i ! j)"
  unfolding ajustarCasoEspecial_def Let_def
  by (auto simp: celda_enCelda)

lemma longitudes_rel:
  assumes "relTablero R t t'"
  shows "length (celdas t') = length (celdas t)"
    and "i < length (celdas t) \<Longrightarrow> length (celdas t' ! i) = length (celdas t ! i)"
  using assms unfolding relTablero_def by auto

lemma ajustarCasosEspeciales_cero:
  assumes wf: "bienFormado tI"
    and vac: "\<And>x. x \<in> set xs \<Longrightarrow> nat (fila x) = i \<and> nat (columna x) = j \<Longrightarrow> adyacenteVacia tI x"
    and rel: "relTablero soloEstimacion tI t"
    and ini: "confC (celdas t ! i ! j) \<le> 0.95 \<or> ceroCierto (celdas t ! i ! j)"
    and ran: "i < length (celdas tI)" "j < length (celdas tI ! i)"
  shows "(confC (celdas (ajustarCasosEspeciales xs t) ! i ! j) \<le> 0.95 \<or>
          ceroCierto (celdas (ajustarCasosEspeciales xs t) ! i ! j)) \<and>
         (ceroCierto (celdas t ! i ! j) \<or> (\<exists>x \<in> set xs. nat (fila x) = i \<and> nat (columna x) = j)
            \<longrightarrow> ceroCierto (celdas (ajustarCasosEspeciales xs t) ! i ! j))"
  using vac rel ini
proof (induction xs arbitrary: t)
  case Nil
  then show ?case by (simp add: ajustarCasosEspeciales_def)
next
  case (Cons x xs)
  let ?t1 = "ajustarCasoEspecial x t"
  let ?y = "celdas t ! i ! j"
  have rel1: "relTablero soloEstimacion tI ?t1"
    using relTablero_soloEstimacion_trans [OF Cons.prems(2) relTablero_ajustarCasoEspecial] .
  have lens: "i < length (celdas t)" "j < length (celdas t ! i)"
    using longitudes_rel [OF Cons.prems(2)] ran by simp_all
  have av: "adyacenteVacia t x = adyacenteVacia tI x"
    by (rule adyacenteVacia_rel [OF Cons.prems(2) soloEstimacion_estado wf])
  have paso: "(confC (celdas ?t1 ! i ! j) \<le> 0.95 \<or> ceroCierto (celdas ?t1 ! i ! j)) \<and>
              (ceroCierto ?y \<or> (nat (fila x) = i \<and> nat (columna x) = j)
                 \<longrightarrow> ceroCierto (celdas ?t1 ! i ! j))"
  proof (cases "nat (fila x) = i \<and> nat (columna x) = j")
    case False
    then have "celdas ?t1 ! i ! j = ?y" by (auto simp: celda_ajustarCasoEspecial)
    then show ?thesis using Cons.prems(3) False by auto
  next
    case True
    then have vacia: "adyacenteVacia t x" using Cons.prems(1) [of x] av by simp
    let ?y1 = "actualizarProbabilidades 0 1 ''analisis100'' ?y"
    have c1: "ceroCierto ?y1"
      using Cons.prems(3) ceroCierto_actualizar ceroCierto_estable by metis
    have "celdas ?t1 ! i ! j =
            (if esquinaConUno t x then actualizarProbabilidades 1 1 ''analisis100'' else id) ?y1"
      using True lens vacia by (simp add: celda_ajustarCasoEspecial)
    then have "celdas ?t1 ! i ! j = ?y1"
      using ceroCierto_estable [OF c1] by simp
    then show ?thesis using c1 by simp
  qed
  have ih: "(confC (celdas (ajustarCasosEspeciales xs ?t1) ! i ! j) \<le> 0.95 \<or>
             ceroCierto (celdas (ajustarCasosEspeciales xs ?t1) ! i ! j)) \<and>
            (ceroCierto (celdas ?t1 ! i ! j) \<or> (\<exists>x \<in> set xs. nat (fila x) = i \<and> nat (columna x) = j)
               \<longrightarrow> ceroCierto (celdas (ajustarCasosEspeciales xs ?t1) ! i ! j))"
    using Cons.IH [of ?t1] Cons.prems(1) rel1 paso by simp
  have eq: "ajustarCasosEspeciales (x # xs) t = ajustarCasosEspeciales xs ?t1"
    by (simp add: ajustarCasosEspeciales_def)
  show ?case unfolding eq using ih paso by auto
qed

lemma ajustarCasosEspeciales_estable:
  assumes wf: "bienFormado tI"
    and nada: "\<And>x. x \<in> set xs \<Longrightarrow> nat (fila x) = i \<and> nat (columna x) = j \<Longrightarrow>
                 \<not> adyacenteVacia tI x \<and> \<not> esquinaConUno tI x"
    and rel: "relTablero soloEstimacion tI t"
  shows "celdas (ajustarCasosEspeciales xs t) ! i ! j = celdas t ! i ! j"
  using nada rel
proof (induction xs arbitrary: t)
  case Nil
  then show ?case by (simp add: ajustarCasosEspeciales_def)
next
  case (Cons x xs)
  let ?t1 = "ajustarCasoEspecial x t"
  have rel1: "relTablero soloEstimacion tI ?t1"
    using relTablero_soloEstimacion_trans [OF Cons.prems(2) relTablero_ajustarCasoEspecial] .
  have av: "adyacenteVacia t x = adyacenteVacia tI x"
    by (rule adyacenteVacia_rel [OF Cons.prems(2) soloEstimacion_estado wf])
  have es: "esquinaConUno t x = esquinaConUno tI x"
    by (rule esquinaConUno_rel [OF Cons.prems(2) soloEstimacion_estado wf])
  have "celdas ?t1 ! i ! j = celdas t ! i ! j"
    using Cons.prems(1) [of x] av es by (auto simp: celda_ajustarCasoEspecial)
  moreover have "celdas (ajustarCasosEspeciales xs ?t1) ! i ! j = celdas ?t1 ! i ! j"
    using Cons.IH [of ?t1] Cons.prems(1) rel1 by simp
  moreover have "ajustarCasosEspeciales (x # xs) t = ajustarCasosEspeciales xs ?t1"
    by (simp add: ajustarCasosEspeciales_def)
  ultimately show ?case by simp
qed

subsection \<open>The whole pass\<close>

lemma calcularProbabilidades_etapas:
  "calcularProbabilidades azar gm t =
     ajustarProbabilidadesFinales (obtenerCeldasSinRevolar (actualizarRestricciones t))
       (hastaMemoria azar gm (actualizarRestricciones t))"
  by (simp add: calcularProbabilidades_def hastaMemoria_def Let_def)

lemma evoluciona_desdeLocales:
  "evoluciona 4 t2
     (case gm of None \<Rightarrow> calcularProbabilidadesFrontera cs (calcularProbabilidadesGlobales azar cs t2)
      | Some g \<Rightarrow> integrarMemoriaHistorica cs g
                    (calcularProbabilidadesFrontera cs (calcularProbabilidadesGlobales azar cs t2)))"
proof -
  have a: "evoluciona 4 t2 (calcularProbabilidadesFrontera cs (calcularProbabilidadesGlobales azar cs t2))"
    using evoluciona_trans [OF evoluciona_globales evoluciona_frontera] .
  show ?thesis
    using a evoluciona_trans [OF a evoluciona_memoria] by (cases gm) auto
qed

lemma evoluciona_hastaMemoria: "evoluciona 7 t0 (hastaMemoria azar gm t0)"
proof -
  let ?cs = "obtenerCeldasSinRevolar t0"
  let ?t2 = "calcularProbabilidadesLocales ?cs (inicializarProbabilidadesBase ?cs t0)"
  have a: "evoluciona 7 t0 ?t2"
    using evoluciona_trans [OF evoluciona_mono [OF evoluciona_inicializar] evoluciona_locales]
    by simp
  have b: "evoluciona 7 ?t2 (hastaMemoria azar gm t0)"
    unfolding hastaMemoria_def Let_def
    using evoluciona_mono [OF evoluciona_desdeLocales [where ?t2.0 = ?t2 and gm = gm
          and cs = ?cs and azar = azar], of 7]
    by (cases gm) auto
  show ?thesis using evoluciona_trans [OF a b] .
qed

lemma en_celdasSinRevolar:
  assumes "bienFormado t" and "x \<in> set (obtenerCeldasSinRevolar t)"
  shows "\<exists>r k. r < filas t \<and> k < columnas t \<and> x = celdas t ! r ! k \<and>
               fila x = int r \<and> columna x = int k"
proof -
  have "x \<in> set (todasLasCeldas t)"
    using assms(2) by (simp add: obtenerCeldasSinRevolar_def)
  then obtain r k where "r < filas t" "k < columnas t" "x = celdas t ! r ! k"
    unfolding todasLasCeldas_def by auto
  then show ?thesis using assms(1) unfolding bienFormado_def by auto
qed

lemma celda_en_celdasSinRevolar:
  assumes "bienFormado t" and "esPosicionValida t f c"
    and "\<not> descubierta (celdas t ! nat f ! nat c)"
  shows "celdas t ! nat f ! nat c \<in> set (obtenerCeldasSinRevolar t)"
  using en_todasLasCeldas [OF assms(1), of f c] assms(2,3)
  by (simp add: obtenerCeldasSinRevolar_def obtenerCelda_def)

lemma adyacenteVacia_posicion:
  "fila x = fila y \<Longrightarrow> columna x = columna y \<Longrightarrow> adyacenteVacia t x = adyacenteVacia t y"
  by (simp add: adyacenteVacia_def)

lemma esquinaConUno_posicion:
  "fila x = fila y \<Longrightarrow> columna x = columna y \<Longrightarrow> esEsquina x = esEsquina y \<Longrightarrow>
   esquinaConUno t x = esquinaConUno t y"
  by (simp add: esquinaConUno_def)

text \<open>The grid before a pass and the grid when the last stage starts.\<close>

lemma pasada_estado:
  assumes wf: "bienFormado t"
    and t0_def: "t0 = actualizarRestricciones t"
    and t5_def: "t5 = hastaMemoria azar gm t0"
    and t6_def: "t6 = normalizarProbabilidades
                        (identificarCasosConCerteza (obtenerCeldasSinRevolar t0) t5)"
  shows "bienFormado t0" and "bienFormado t5" and "bienFormado t6"
    and "relTablero mismoEstado t t6"
    and "relTablero soloRestricciones t t0"
    and "evoluciona 7 t0 t5"
    and "relTablero soloEstimacion t5 t6"
proof -
  show r0: "relTablero soloRestricciones t t0"
    unfolding t0_def by (rule relTablero_actualizarRestricciones [OF wf])
  show wf0: "bienFormado t0"
    using relTablero_bienFormado [OF r0 soloRestricciones_estado wf] .
  show r5: "evoluciona 7 t0 t5"
    unfolding t5_def by (rule evoluciona_hastaMemoria)
  show wf5: "bienFormado t5"
    using relTablero_bienFormado [OF r5 avanza_estado wf0] .
  show r6: "relTablero soloEstimacion t5 t6"
    unfolding t6_def by (simp add: normalizarProbabilidades_no_cambia relTablero_identificar)
  show "bienFormado t6"
    using relTablero_bienFormado [OF r6 soloEstimacion_estado wf5] .
  have "relTablero mismoEstado t t0"
    by (rule relTablero_mono [OF r0]) (rule soloRestricciones_estado)
  moreover have "relTablero mismoEstado t0 t5"
    by (rule relTablero_mono [OF r5]) (rule avanza_estado)
  moreover have "relTablero mismoEstado t5 t6"
    by (rule relTablero_mono [OF r6]) (rule soloEstimacion_estado)
  ultimately
  show "relTablero mismoEstado t t6"
    using relTablero_trans [of mismoEstado] mismoEstado_trans by blast
qed

lemma relTablero_ajustarCasosEspeciales:
  "relTablero soloEstimacion t (ajustarCasosEspeciales cs t)"
  unfolding ajustarCasosEspeciales_def
  by (rule relTablero_fold [of soloEstimacion])
     (auto intro: soloEstimacion_trans relTablero_ajustarCasoEspecial)

lemma avanza_cota: "avanza k c c' \<Longrightarrow> confC c \<le> 0.95 \<Longrightarrow> confC c' \<le> 0.95"
  unfolding avanza_def by auto
subsection \<open>Effect of revealing and flagging\<close>

lemma establecerValorCelda_efecto:
  assumes wf: "bienFormado t" and g: "obtenerCelda t f c = Some x" and nd: "\<not> descubierta x"
  shows "bienFormado (snd (establecerValorCelda f c v t))"
    and "obtenerCelda (snd (establecerValorCelda f c v t)) f' c' =
           (if f' = f \<and> c' = c then Some (establecerValor v x) else obtenerCelda t f' c')"
proof -
  have v: "esPosicionValida t f c" and x: "x = celdas t ! nat f ! nat c"
    using g by (auto simp: obtenerCelda_def split: if_splits)
  have pres: "\<And>y. fila (establecerValor v y) = fila y \<and> columna (establecerValor v y) = columna y"
    by (simp add: establecerValor_def)
  show "bienFormado (snd (establecerValorCelda f c v t))"
    using nd bienFormado_modificarCelda [OF wf pres] by (simp add: establecerValorCelda_def g)
  show "obtenerCelda (snd (establecerValorCelda f c v t)) f' c' =
           (if f' = f \<and> c' = c then Some (establecerValor v x) else obtenerCelda t f' c')"
    using nd obtenerCelda_modificarCelda [OF wf v] by (simp add: establecerValorCelda_def g x)
qed

lemma establecerBandera_efecto:
  assumes wf: "bienFormado t" and g: "obtenerCelda t f c = Some x" and nd: "\<not> descubierta x"
    and dif: "tieneBandera x \<noteq> b"
  shows "bienFormado (snd (establecerBandera f c b t))"
    and "obtenerCelda (snd (establecerBandera f c b t)) f' c' =
           (if f' = f \<and> c' = c then Some (establecerBanderaCelda b x) else obtenerCelda t f' c')"
proof -
  have v: "esPosicionValida t f c" and x: "x = celdas t ! nat f ! nat c"
    using g by (auto simp: obtenerCelda_def split: if_splits)
  have pres: "\<And>y. fila (establecerBanderaCelda b y) = fila y \<and>
                    columna (establecerBanderaCelda b y) = columna y"
    by (simp add: establecerBanderaCelda_def)
  show "bienFormado (snd (establecerBandera f c b t))"
    using nd dif bienFormado_modificarCelda [OF wf pres] by (simp add: establecerBandera_def g)
  show "obtenerCelda (snd (establecerBandera f c b t)) f' c' =
           (if f' = f \<and> c' = c then Some (establecerBanderaCelda b x) else obtenerCelda t f' c')"
    using nd dif obtenerCelda_modificarCelda [OF wf v] by (simp add: establecerBandera_def g x)
qed

lemma obtenerCelda_nuevoTablero:
  "obtenerCelda (nuevoTablero nf nc) f c =
     (if 0 \<le> f \<and> f < int nf \<and> 0 \<le> c \<and> c < int nc
      then Some (marcarCeldaEspecial nf nc (nuevaCelda f c)) else None)"
  by (auto simp: obtenerCelda_def esPosicionValida_def nuevoTablero_def inicializarTablero_def)

lemma celdaNueva_campos [simp]:
  "fila (marcarCeldaEspecial nf nc (nuevaCelda f c)) = f"
  "columna (marcarCeldaEspecial nf nc (nuevaCelda f c)) = c"
  "\<not> descubierta (marcarCeldaEspecial nf nc (nuevaCelda f c))"
  "\<not> tieneBandera (marcarCeldaEspecial nf nc (nuevaCelda f c))"
  "probabilidades (marcarCeldaEspecial nf nc (nuevaCelda f c)) = probabilidadesIniciales"
  "valor (marcarCeldaEspecial nf nc (nuevaCelda f c)) = Nulo"
  by (simp_all add: marcarCeldaEspecial_def nuevaCelda_def Let_def)

lemma jerarquia_analisis100 [simp]: "jerarquia ''analisis100'' = 8"
  by (simp add: jerarquia_def)

subsection \<open>What a pass keeps and what it overrides\<close>

lemma avanza_tope:
  assumes "avanza k y y'" and "confC y = 0.8" and "k \<le> rangoC y"
  shows "y' = y"
proof (rule ccontr)
  assume "y' \<noteq> y"
  then have a: "confC y' \<le> 0.8" "confC y' = 0.8 \<longrightarrow> rangoC y' \<le> k"
    "confC y < confC y' \<or> (confC y = confC y' \<and> rangoC y < rangoC y')"
    using assms(1) unfolding avanza_def by blast+
  from a(1,3) assms(2) have "confC y' = 0.8" "rangoC y < rangoC y'" by linarith+
  with a(2) assms(3) show False by simp
qed

lemma calcularProbabilidades_conserva_local:
  assumes wf: "bienFormado t"
    and v: "esPosicionValida t f c"
    and t0_def: "t0 = actualizarRestricciones t"
    and t2_def: "t2 = calcularProbabilidadesLocales (obtenerCeldasSinRevolar t0)
                       (inicializarProbabilidadesBase (obtenerCeldasSinRevolar t0) t0)"
    and cf: "confC (celdas t2 ! nat f ! nat c) = 0.8"
    and rg: "4 \<le> rangoC (celdas t2 ! nat f ! nat c)"
    and nada: "\<not> adyacenteVacia t (celdas t ! nat f ! nat c)"
              "\<not> esquinaConUno t (celdas t ! nat f ! nat c)"
  shows "celdas (calcularProbabilidades azar gm t) ! nat f ! nat c = celdas t2 ! nat f ! nat c"
proof -
  define cs where "cs = obtenerCeldasSinRevolar t0"
  define t5 where "t5 = hastaMemoria azar gm t0"
  define t6 where "t6 = normalizarProbabilidades (identificarCasosConCerteza cs t5)"
  define tf where "tf = ajustarCasosEspeciales cs t6"
  define i where "i = nat f"
  define j where "j = nat c"
  define x where "x = celdas t ! i ! j"
  note st = pasada_estado [OF wf t0_def t5_def t6_def [unfolded cs_def]]
  have final: "calcularProbabilidades azar gm t = tf"
    by (simp add: calcularProbabilidades_etapas ajustarProbabilidadesFinales_def tf_def t6_def
        t5_def cs_def t0_def)
  have fpos: "f = int i" "c = int j"
    using v by (auto simp: esPosicionValida_def i_def j_def)
  have xpos: "fila x = f" "columna x = c"
    using wf v unfolding x_def bienFormado_def esPosicionValida_def i_def j_def by auto
  have v0: "esPosicionValida t0 f c"
    using relTablero_valida [OF st(5)] v by simp
  have e2: "evoluciona 7 t0 t2"
    unfolding t2_def
    using evoluciona_trans [OF evoluciona_mono [OF evoluciona_inicializar] evoluciona_locales]
    by simp
  have wf2: "bienFormado t2"
    using relTablero_bienFormado [OF e2 avanza_estado st(1)] .
  have v2: "esPosicionValida t2 f c"
    using relTablero_valida [OF e2] v0 by simp
  have t5: "t5 = (case gm of None \<Rightarrow> calcularProbabilidadesFrontera (obtenerCeldasSinRevolar t0)
                      (calcularProbabilidadesGlobales azar (obtenerCeldasSinRevolar t0) t2)
      | Some g \<Rightarrow> integrarMemoriaHistorica (obtenerCeldasSinRevolar t0) g
                    (calcularProbabilidadesFrontera (obtenerCeldasSinRevolar t0)
                       (calcularProbabilidadesGlobales azar (obtenerCeldasSinRevolar t0) t2)))"
    unfolding t5_def hastaMemoria_def Let_def t2_def by (simp split: option.split)
  have e5: "evoluciona 4 t2 t5"
    unfolding t5 by (rule evoluciona_desdeLocales)
  have r5: "avanza 4 (celdas t2 ! i ! j) (celdas t5 ! i ! j)"
    using relTablero_celda [OF e5 wf2 v2] by (simp add: i_def j_def)
  have c5: "celdas t5 ! i ! j = celdas t2 ! i ! j"
    by (rule avanza_tope [OF r5]) (simp_all add: cf rg i_def j_def)
  have "confC (celdas t5 ! i ! j) \<le> 0.95"
    using c5 cf by (simp add: i_def j_def)
  then have c6: "celdas t6 ! i ! j = celdas t5 ! i ! j"
    unfolding t6_def by (simp add: normalizarProbabilidades_no_cambia celda_identificar)
  have nadas: "\<not> adyacenteVacia t6 x' \<and> \<not> esquinaConUno t6 x'"
    if "x' \<in> set cs" "nat (fila x') = i \<and> nat (columna x') = j" for x'
  proof -
    have "x' \<in> set (obtenerCeldasSinRevolar t0)" using that(1) by (simp add: cs_def)
    from en_celdasSinRevolar [OF st(1) this]
    obtain r k where rk: "r < filas t0" "k < columnas t0" "x' = celdas t0 ! r ! k"
      "fila x' = int r" "columna x' = int k" by blast
    then have "r = i" "k = j" using that(2) by auto
    then have "x' = celdas t0 ! i ! j" using rk by simp
    moreover have "soloRestricciones x (celdas t0 ! i ! j)"
      using relTablero_celda [OF st(5) wf v] by (simp add: x_def i_def j_def)
    ultimately have m: "mismoEstado x x'" by (simp add: soloRestricciones_def)
    then have p: "fila x' = fila x" "columna x' = columna x" "esEsquina x' = esEsquina x"
      by (simp_all add: mismoEstado_def)
    have "adyacenteVacia t6 x' = adyacenteVacia t6 x"
      by (rule adyacenteVacia_posicion) (simp_all add: p)
    also have "\<dots> = adyacenteVacia t x"
      by (rule adyacenteVacia_rel [OF st(4) _ wf])
    finally have a: "\<not> adyacenteVacia t6 x'" using nada(1) by (simp add: x_def i_def j_def)
    have "esquinaConUno t6 x' = esquinaConUno t6 x"
      by (rule esquinaConUno_posicion) (simp_all add: p)
    also have "\<dots> = esquinaConUno t x"
      by (rule esquinaConUno_rel [OF st(4) _ wf])
    finally have "\<not> esquinaConUno t6 x'" using nada(2) by (simp add: x_def i_def j_def)
    with a show ?thesis by simp
  qed
  have cf: "celdas tf ! i ! j = celdas t6 ! i ! j"
    unfolding tf_def
  proof (rule ajustarCasosEspeciales_estable [where tI = t6])
    show "bienFormado t6" by (rule st(3))
    show "\<And>x. x \<in> set cs \<Longrightarrow> nat (fila x) = i \<and> nat (columna x) = j \<Longrightarrow>
            \<not> adyacenteVacia t6 x \<and> \<not> esquinaConUno t6 x"
      by (rule nadas)
    show "relTablero soloEstimacion t6 t6" by (simp add: relTablero_refl)
  qed
  show ?thesis
    unfolding final using cf c6 c5 by (simp add: i_def j_def)
qed


lemma calcularProbabilidades_estado:
  assumes wf: "bienFormado t"
  shows "relTablero mismoEstado t (calcularProbabilidades azar gm t)"
proof -
  define t0 where "t0 = actualizarRestricciones t"
  define t5 where "t5 = hastaMemoria azar gm t0"
  define t6 where "t6 = normalizarProbabilidades
                          (identificarCasosConCerteza (obtenerCeldasSinRevolar t0) t5)"
  note st = pasada_estado [OF wf t0_def t5_def t6_def]
  have final: "calcularProbabilidades azar gm t = ajustarCasosEspeciales (obtenerCeldasSinRevolar t0) t6"
    by (simp add: calcularProbabilidades_etapas ajustarProbabilidadesFinales_def t6_def
        t5_def t0_def)
  have "relTablero mismoEstado t6 (ajustarCasosEspeciales (obtenerCeldasSinRevolar t0) t6)"
    by (rule relTablero_mono [OF relTablero_ajustarCasosEspeciales]) (rule soloEstimacion_estado)
  with st(4) show ?thesis
    unfolding final
    using relTablero_trans [of mismoEstado] mismoEstado_trans by blast
qed

lemma calcularProbabilidades_bienFormado:
  assumes "bienFormado t"
  shows "bienFormado (calcularProbabilidades azar gm t)"
  by (rule relTablero_bienFormado [OF calcularProbabilidades_estado [OF assms] _ assms])

lemma calcularProbabilidades_valida:
  assumes "bienFormado t"
  shows "esPosicionValida (calcularProbabilidades azar gm t) f c = esPosicionValida t f c"
  by (rule relTablero_valida [OF calcularProbabilidades_estado [OF assms]])

lemma calcularProbabilidades_adyacenteVacia:
  assumes wf: "bienFormado t"
    and g: "obtenerCelda t f c = Some x"
    and nd: "\<not> descubierta x"
    and cf: "confianza (probabilidades x) \<le> 0.95"
    and vac: "adyacenteVacia t x"
  shows "\<exists>y. obtenerCelda (calcularProbabilidades azar gm t) f c = Some y \<and>
             probabilidadMina (probabilidades y) = 0 \<and> confianza (probabilidades y) = 1"
proof -
  define t0 where "t0 = actualizarRestricciones t"
  define t5 where "t5 = hastaMemoria azar gm t0"
  define cs where "cs = obtenerCeldasSinRevolar t0"
  define t6 where "t6 = normalizarProbabilidades (identificarCasosConCerteza cs t5)"
  define tf where "tf = ajustarCasosEspeciales cs t6"
  define i where "i = nat f"
  define j where "j = nat c"
  note st = pasada_estado [OF wf t0_def t5_def t6_def [unfolded cs_def]]
  have final: "calcularProbabilidades azar gm t = tf"
    by (simp add: calcularProbabilidades_etapas ajustarProbabilidadesFinales_def tf_def t6_def
        t5_def cs_def t0_def)
  have v: "esPosicionValida t f c" and x: "x = celdas t ! i ! j"
    using g by (auto simp: obtenerCelda_def i_def j_def split: if_splits)
  have fpos: "f = int i" "c = int j"
    using v by (auto simp: esPosicionValida_def i_def j_def)
  have xpos: "fila x = f" "columna x = c"
    using wf v unfolding x bienFormado_def esPosicionValida_def i_def j_def by auto
  have v0: "esPosicionValida t0 f c"
    using relTablero_valida [OF st(5)] v by simp
  have r0: "soloRestricciones x (celdas t0 ! i ! j)"
    using relTablero_celda [OF st(5) wf v] by (simp add: x i_def j_def)
  have r5: "avanza 7 (celdas t0 ! i ! j) (celdas t5 ! i ! j)"
    using relTablero_celda [OF st(6) st(1) v0] by (simp add: i_def j_def)
  have c0: "confC (celdas t0 ! i ! j) \<le> 0.95" "\<not> descubierta (celdas t0 ! i ! j)"
    using r0 cf nd by (auto simp: soloRestricciones_def confC_def mismoEstado_def)
  have c5: "confC (celdas t5 ! i ! j) \<le> 0.95"
    using avanza_cota [OF r5 c0(1)] .
  have c6: "celdas t6 ! i ! j = celdas t5 ! i ! j"
    unfolding t6_def by (simp add: normalizarProbabilidades_no_cambia celda_identificar [OF c5])
  have mem: "celdas t0 ! i ! j \<in> set cs"
    unfolding cs_def i_def j_def
    using celda_en_celdasSinRevolar [OF st(1) v0] c0(2) by (simp add: i_def j_def)
  have pos0: "nat (fila (celdas t0 ! i ! j)) = i \<and> nat (columna (celdas t0 ! i ! j)) = j"
    using r0 xpos fpos by (simp add: soloRestricciones_def mismoEstado_def)
  have ran: "i < length (celdas t6)" "j < length (celdas t6 ! i)"
    using st(3) v relTablero_valida [OF st(4), of f c]
    unfolding bienFormado_def esPosicionValida_def i_def j_def by auto
  have vacias: "adyacenteVacia t6 x'"
    if "x' \<in> set cs" "nat (fila x') = i \<and> nat (columna x') = j" for x'
  proof -
    have "x' \<in> set (obtenerCeldasSinRevolar t0)" using that(1) by (simp add: cs_def)
    from en_celdasSinRevolar [OF st(1) this]
    obtain r k where "fila x' = int r" "columna x' = int k" by blast
    then have "fila x' = fila x" "columna x' = columna x"
      using that(2) xpos fpos by auto
    then have "adyacenteVacia t6 x' = adyacenteVacia t6 x"
      by (rule adyacenteVacia_posicion)
    also have "\<dots> = adyacenteVacia t x"
      by (rule adyacenteVacia_rel [OF st(4) _ wf])
    finally show ?thesis using vac by simp
  qed
  have res: "(confC (celdas (ajustarCasosEspeciales cs t6) ! i ! j) \<le> 0.95 \<or>
          ceroCierto (celdas (ajustarCasosEspeciales cs t6) ! i ! j)) \<and>
         (ceroCierto (celdas t6 ! i ! j) \<or> (\<exists>x \<in> set cs. nat (fila x) = i \<and> nat (columna x) = j)
            \<longrightarrow> ceroCierto (celdas (ajustarCasosEspeciales cs t6) ! i ! j))"
  proof (rule ajustarCasosEspeciales_cero [where tI = t6])
    show "bienFormado t6" by (rule st(3))
    show "\<And>x. x \<in> set cs \<Longrightarrow> nat (fila x) = i \<and> nat (columna x) = j \<Longrightarrow> adyacenteVacia t6 x"
      by (rule vacias)
    show "relTablero soloEstimacion t6 t6" by (simp add: relTablero_refl)
    show "confC (celdas t6 ! i ! j) \<le> 0.95 \<or> ceroCierto (celdas t6 ! i ! j)"
      using c5 c6 by simp
    show "i < length (celdas t6)" "j < length (celdas t6 ! i)" by (rule ran)+
  qed
  have ex: "\<exists>x \<in> set cs. nat (fila x) = i \<and> nat (columna x) = j"
    using mem pos0 by blast
  have "ceroCierto (celdas tf ! i ! j)"
    unfolding tf_def using res ex by blast
  moreover have "obtenerCelda tf f c = Some (celdas tf ! i ! j)"
    using relTablero_valida [OF relTablero_ajustarCasosEspeciales [of t6 cs], of f c]
      relTablero_valida [OF st(4), of f c] v
    by (simp add: obtenerCelda_def tf_def i_def j_def)
  ultimately show ?thesis
    unfolding final ceroCierto_def by simp
qed

subsection \<open>The grid with a revealed 0 in the corner\<close>

lemma nuevo_8x8_origen:
  "obtenerCelda (nuevoTablero 8 8) 0 0 = Some (marcarCeldaEspecial 8 8 (nuevaCelda 0 0))"
  by (simp add: obtenerCelda_nuevoTablero)

lemma tableroCero_bienFormado: "bienFormado tableroCero"
  unfolding tableroCero_def
  by (rule establecerValorCelda_efecto(1) [OF bienFormado_nuevoTablero nuevo_8x8_origen]) simp

lemma tableroCero_celda:
  "obtenerCelda tableroCero f c =
     (if f = 0 \<and> c = 0 then Some (establecerValor (Digito 0) (marcarCeldaEspecial 8 8 (nuevaCelda 0 0)))
      else obtenerCelda (nuevoTablero 8 8) f c)"
  unfolding tableroCero_def
  by (rule establecerValorCelda_efecto(2) [OF bienFormado_nuevoTablero nuevo_8x8_origen]) simp

lemma tableroCero_adyacentes:
  "length (obtenerCeldasAdyacentes tableroCero 0 0) = 3"
  by (simp add: obtenerCeldasAdyacentes_def desplazamientos_def tableroCero_celda
      obtenerCelda_nuevoTablero)

lemma tableroCero_vacia:
  "adyacenteVacia tableroCero (marcarCeldaEspecial 8 8 (nuevaCelda 0 1))"
  "adyacenteVacia tableroCero (marcarCeldaEspecial 8 8 (nuevaCelda 1 0))"
  "adyacenteVacia tableroCero (marcarCeldaEspecial 8 8 (nuevaCelda 1 1))"
  by (simp_all add: adyacenteVacia_def obtenerCeldasAdyacentes_def desplazamientos_def
      tableroCero_celda obtenerCelda_nuevoTablero establecerValor_def)

lemma tableroCero_vecina:
  assumes "(f, c) \<in> {(0, 1), (1, 0), (1, 1)}"
  shows "\<exists>y. obtenerCelda (calcularProbabilidades azar gm tableroCero) f c = Some y \<and>
             fila y = f \<and> columna y = c \<and>
             probabilidadMina (probabilidades y) = 0 \<and> confianza (probabilidades y) = 1"
proof -
  let ?tf = "calcularProbabilidades azar gm tableroCero"
  let ?x = "marcarCeldaEspecial 8 8 (nuevaCelda f c)"
  have g: "obtenerCelda tableroCero f c = Some ?x"
    using assms by (auto simp: tableroCero_celda obtenerCelda_nuevoTablero)
  have vac: "adyacenteVacia tableroCero ?x"
    using assms tableroCero_vacia by auto
  have cf: "confianza (probabilidades ?x) \<le> 0.95"
    by (simp add: probabilidadesIniciales_def)
  from calcularProbabilidades_adyacenteVacia [OF tableroCero_bienFormado g _ cf vac, of azar gm]
  obtain y where y: "obtenerCelda ?tf f c = Some y"
    "probabilidadMina (probabilidades y) = 0" "confianza (probabilidades y) = 1"
    by auto
  have v: "esPosicionValida ?tf f c" by (rule obtenerCelda_valida [OF y(1)])
  then have "y = celdas ?tf ! nat f ! nat c"
    using y(1) by (simp add: obtenerCelda_def)
  moreover have "bienFormado ?tf"
    by (rule calcularProbabilidades_bienFormado [OF tableroCero_bienFormado])
  ultimately have "fila y = f" "columna y = c"
    using v unfolding bienFormado_def esPosicionValida_def by auto
  then show ?thesis using y by simp
qed

lemma tableroCero_fuera:
  assumes "f < 0 \<or> c < 0"
  shows "obtenerCelda (calcularProbabilidades azar gm tableroCero) f c = None"
  using assms calcularProbabilidades_valida [OF tableroCero_bienFormado, of azar gm f c]
  by (auto simp: obtenerCelda_def esPosicionValida_def)

subsection \<open>The grid with two revealed 2s\<close>

lemma upt8: "[0..<8] = [0, 1, 2, 3, 4, 5, 6, 7]"
  by (simp add: upt_rec)

lemmas tablero_simps = nuevoTablero_def inicializarTablero_def upt8 establecerValorCelda_def obtenerCelda_def esPosicionValida_def
     modificarCelda_def marcarCeldaEspecial_def nuevaCelda_def Let_def establecerValor_def probabilidadesIniciales_def

lemmas restr_simps = actualizarRestricciones_def limpiarRestricciones_def posiciones_def restringirDesde_def
   tieneValorNumerico_def obtenerValorNumerico_def numero_def obtenerCeldasAdyacentes_def desplazamientos_def
   sinRevelar_def contarBanderas_def agregarRestriccion_def

lemmas etapa_simps = obtenerCeldasSinRevolar_def todasLasCeldas_def inicializarProbabilidadesBase_def
   probabilidadBase_def estimacionMinas_def inicializarCelda_def factorPosicion_def enCelda_def
   actualizarProbabilidades_def debeActualizar_def esOrigenMasConfiable_def jerarquia_def
   calcularProbabilidadesLocales_def agregarAGrupoLocal_def claveRestricciones_def procesarGrupoLocal_def
   confianzaLocal_def

lemma tableroDosDoses_primera:
  "obtenerCelda (snd (establecerValorCelda 0 0 (Digito 2) (nuevoTablero 8 8))) f c =
     (if f = 0 \<and> c = 0 then Some (establecerValor (Digito 2) (marcarCeldaEspecial 8 8 (nuevaCelda 0 0)))
      else obtenerCelda (nuevoTablero 8 8) f c)"
  "bienFormado (snd (establecerValorCelda 0 0 (Digito 2) (nuevoTablero 8 8)))"
proof -
  have a: "obtenerCelda (nuevoTablero 8 8) 0 0 = Some (marcarCeldaEspecial 8 8 (nuevaCelda 0 0))"
    by (simp add: obtenerCelda_nuevoTablero)
  show "obtenerCelda (snd (establecerValorCelda 0 0 (Digito 2) (nuevoTablero 8 8))) f c =
     (if f = 0 \<and> c = 0 then Some (establecerValor (Digito 2) (marcarCeldaEspecial 8 8 (nuevaCelda 0 0)))
      else obtenerCelda (nuevoTablero 8 8) f c)"
    by (rule establecerValorCelda_efecto(2) [OF bienFormado_nuevoTablero a]) simp
  show "bienFormado (snd (establecerValorCelda 0 0 (Digito 2) (nuevoTablero 8 8)))"
    by (rule establecerValorCelda_efecto(1) [OF bienFormado_nuevoTablero a]) simp
qed

lemma tableroDosDoses_obtener:
  "obtenerCelda tableroDosDoses f c =
     (if f = 0 \<and> c = 2 then Some (establecerValor (Digito 2) (marcarCeldaEspecial 8 8 (nuevaCelda 0 2)))
      else if f = 0 \<and> c = 0 then Some (establecerValor (Digito 2) (marcarCeldaEspecial 8 8 (nuevaCelda 0 0)))
      else obtenerCelda (nuevoTablero 8 8) f c)"
  "bienFormado tableroDosDoses"
proof -
  have a: "obtenerCelda (snd (establecerValorCelda 0 0 (Digito 2) (nuevoTablero 8 8))) 0 2
             = Some (marcarCeldaEspecial 8 8 (nuevaCelda 0 2))"
    by (simp add: tableroDosDoses_primera(1) obtenerCelda_nuevoTablero)
  show "bienFormado tableroDosDoses"
    unfolding tableroDosDoses_def
    by (rule establecerValorCelda_efecto(1) [OF tableroDosDoses_primera(2) a]) simp
  have "obtenerCelda tableroDosDoses f c =
     (if f = 0 \<and> c = 2 then Some (establecerValor (Digito 2) (marcarCeldaEspecial 8 8 (nuevaCelda 0 2)))
      else obtenerCelda (snd (establecerValorCelda 0 0 (Digito 2) (nuevoTablero 8 8))) f c)"
    unfolding tableroDosDoses_def
    by (rule establecerValorCelda_efecto(2) [OF tableroDosDoses_primera(2) a]) simp
  then show "obtenerCelda tableroDosDoses f c =
     (if f = 0 \<and> c = 2 then Some (establecerValor (Digito 2) (marcarCeldaEspecial 8 8 (nuevaCelda 0 2)))
      else if f = 0 \<and> c = 0 then Some (establecerValor (Digito 2) (marcarCeldaEspecial 8 8 (nuevaCelda 0 0)))
      else obtenerCelda (nuevoTablero 8 8) f c)"
    by (simp add: tableroDosDoses_primera(1))
qed

lemma tableroDosDoses_local:
  "estimacion (celdas (calcularProbabilidadesLocales
        (obtenerCeldasSinRevolar (actualizarRestricciones tableroDosDoses))
        (inicializarProbabilidadesBase (obtenerCeldasSinRevolar (actualizarRestricciones tableroDosDoses))
           (actualizarRestricciones tableroDosDoses))) ! 1 ! 0)
   = (2, 4 / 5, ''restricciones'')"
  unfolding tableroDosDoses_def
  by (simp add: tablero_simps restr_simps etapa_simps estimacion_def)

lemma tableroDosDoses_celda:
  "obtenerCelda tableroDosDoses 1 0 = Some (marcarCeldaEspecial 8 8 (nuevaCelda 1 0))"
  by (simp add: tableroDosDoses_obtener(1) obtenerCelda_nuevoTablero)

lemma tableroDosDoses_sinCasos:
  "\<not> adyacenteVacia tableroDosDoses (marcarCeldaEspecial 8 8 (nuevaCelda 1 0))"
  "\<not> esquinaConUno tableroDosDoses (marcarCeldaEspecial 8 8 (nuevaCelda 1 0))"
  by (simp_all add: adyacenteVacia_def esquinaConUno_def sinRevelar_def
      obtenerCeldasAdyacentes_def desplazamientos_def
      tableroDosDoses_obtener(1) obtenerCelda_nuevoTablero establecerValor_def)

section \<open>The memory across the events of a session\<close>

lemma contadorDe_mina [simp]: "contadorDe (registrarMinaEncontrada f c gm) = contadorDe gm"
  by (simp add: contadorDe_def registrarMinaEncontrada_def Let_def)

lemma detectados_mina [simp]:
  "cambiosDetectados (registrarMinaEncontrada f c gm) = cambiosDetectados gm"
  by (simp add: registrarMinaEncontrada_def Let_def)

lemma contadorDe_contradiccion [simp]:
  "contadorDe (registrarContradiccion tipo gm) = contadorDe gm + 1"
  by (simp add: contadorDe_def registrarContradiccion_def atenuarMemoriaAntigua_def Let_def
      controlCambiosInicial_def split: option.splits)

lemma detectados_contradiccion:
  "cambiosDetectados (registrarContradiccion tipo gm) \<longleftrightarrow>
     cambiosDetectados gm \<or> 2 \<le> contadorDe gm"
  by (auto simp: contadorDe_def registrarContradiccion_def atenuarMemoriaAntigua_def Let_def
      controlCambiosInicial_def split: option.splits)

lemma mapa_contradiccion:
  "mapaMinasConocidas (memoriaG (registrarContradiccion tipo gm)) =
     (if 2 \<le> contadorDe gm
      then map (\<lambda>(k, v). (k, atenuarMina v)) (mapaMinasConocidas (memoriaG gm))
      else mapaMinasConocidas (memoriaG gm))"
  by (auto simp: contadorDe_def registrarContradiccion_def atenuarMemoriaAntigua_def Let_def
      controlCambiosInicial_def split: option.splits)

lemma sesion_sin_reinicio:
  assumes "\<not> list_ex esReinicio es"
  shows "contadorDe (fold aplicarEvento es gm) = contadorDe gm + length (filter esContradiccion es)"
    and "cambiosDetectados (fold aplicarEvento es gm) \<longleftrightarrow>
           cambiosDetectados gm \<or>
           (1 \<le> length (filter esContradiccion es) \<and>
            3 \<le> contadorDe gm + length (filter esContradiccion es))"
  using assms
proof (induction es arbitrary: gm)
  case Nil
  { case 1 show ?case by simp }
  { case 2 show ?case by simp }
next
  case (Cons e es)
  { case 1
    then have r: "\<not> list_ex esReinicio es" by simp
    show ?case using Cons.IH(1) [OF r, of "aplicarEvento e gm"] 1
      by (cases e) (simp_all add: esContradiccion_def esReinicio_def) }
  { case 2
    then have r: "\<not> list_ex esReinicio es" by simp
    show ?case
    proof (cases e)
      case (MinaEncontrada f c)
      then show ?thesis
        using Cons.IH(2) [OF r, of "aplicarEvento e gm"] by (simp add: esContradiccion_def)
    next
      case (Contradiccion tipo)
      then show ?thesis
        using Cons.IH(2) [OF r, of "aplicarEvento e gm"]
        by (simp add: esContradiccion_def detectados_contradiccion) arith
    next
      case (Reinicio reloj)
      then show ?thesis using 2 by (simp add: esReinicio_def)
    qed }
qed

lemma piso07_ejemplos: "piso07 1 = 0" "piso07 3 = 2" "piso07 10 = 7" "piso07 90 = 62"
  by (simp_all add: piso07_def redondear53_def mantisa07_def Let_def)

lemma piso07_sucesores: "piso07 (Suc 0) = 0" "piso07 (Suc (Suc (Suc 0))) = 2"
  using piso07_ejemplos(1,2) by (simp_all add: numeral_3_eq_3)

lemmas memoria_simps = nuevoGestorMemoria_def memoriaInicial_def controlCambiosInicial_def
  registrarMinaEncontrada_def registrarContradiccion_def atenuarMemoriaAntigua_def actualizarMina_def
  atenuarMina_def reiniciarMemoria_def obtenerMapaMinasConocidas_def reducirMina_def cuentas_def
  contadorDe_def Let_def piso07_ejemplos piso07_sucesores

section \<open>The enumeration over a connected component\<close>






lemma length_todasLasCombinaciones: "length (todasLasCombinaciones n) = 2 ^ n"
  by (simp add: todasLasCombinaciones_def)





























lemma filas_establecerValorCelda [simp]:
  "filas (snd (establecerValorCelda f c v t)) = filas t"
  "columnas (snd (establecerValorCelda f c v t)) = columnas t"
  by (simp_all add: establecerValorCelda_def modificarCelda_def split: option.splits)

lemma filas_nuevoTablero [simp]:
  "filas (nuevoTablero nf nc) = nf" "columnas (nuevoTablero nf nc) = nc"
  by (simp_all add: nuevoTablero_def)













section \<open>The claims\<close>

text \<open>
  Claim C2.  \<open>actualizarProbabilidades\<close> stores the new probability, confidence and
  provenance exactly when the new confidence is strictly higher than the stored one, or
  equal with a strictly higher rank in \<open>jerarquia\<close>; otherwise the cell is left as it
  was.  The ten tags are ranked revelada > bandera > analisis100 > restricciones > patron >
  subconjunto > probabilidad > memoria > estrategia > inicial.  In particular a cell at
  confidence 1 is not overwritten by an update of confidence at most 1 whose tag does
  not rank higher.
\<close>

theorem actualizarProbabilidades_regla:
  fixes c :: celda and pm cf :: real and og :: string
  defines "p \<equiv> probabilidades c"
  defines "c' \<equiv> actualizarProbabilidades pm cf og c"
  shows "((cf > confianza p \<or> (cf = confianza p \<and> jerarquia og > jerarquia (origen p))) \<longrightarrow>
            probabilidadMina (probabilidades c') = pm \<and> confianza (probabilidades c') = cf \<and>
            origen (probabilidades c') = og) \<and>
         (\<not> (cf > confianza p \<or> (cf = confianza p \<and> jerarquia og > jerarquia (origen p))) \<longrightarrow>
            c' = c) \<and>
         (confianza p = 1 \<and> cf \<le> 1 \<and> jerarquia og \<le> jerarquia (origen p) \<longrightarrow> c' = c) \<and>
         jerarquia ''revelada'' > jerarquia ''bandera'' \<and>
         jerarquia ''bandera'' > jerarquia ''analisis100'' \<and>
         jerarquia ''analisis100'' > jerarquia ''restricciones'' \<and>
         jerarquia ''restricciones'' > jerarquia ''patron'' \<and>
         jerarquia ''patron'' > jerarquia ''subconjunto'' \<and>
         jerarquia ''subconjunto'' > jerarquia ''probabilidad'' \<and>
         jerarquia ''probabilidad'' > jerarquia ''memoria'' \<and>
         jerarquia ''memoria'' > jerarquia ''estrategia'' \<and>
         jerarquia ''estrategia'' > jerarquia ''inicial''"
proof -
  have ord: "jerarquia ''revelada'' = 10" "jerarquia ''bandera'' = 9" "jerarquia ''analisis100'' = 8"
    "jerarquia ''restricciones'' = 7" "jerarquia ''patron'' = 6" "jerarquia ''subconjunto'' = 5"
    "jerarquia ''probabilidad'' = 4" "jerarquia ''memoria'' = 3" "jerarquia ''estrategia'' = 2"
    "jerarquia ''inicial'' = 1"
    by (simp_all add: jerarquia_def)
  show ?thesis
    unfolding c'_def p_def ord
    by (auto simp: actualizarProbabilidades_def debeActualizar_def esOrigenMasConfiable_def Let_def)
qed

theorem actualizarProbabilidades_regla_witness:
  "(1::real) > confianza (probabilidades (nuevaCelda 0 0)) \<and>
   probabilidadMina (probabilidades (actualizarProbabilidades 1 1 ''analisis100'' (nuevaCelda 0 0))) = 1 \<and>
   confianza (probabilidades (establecerBanderaCelda True (nuevaCelda 0 0))) = 1 \<and>
   jerarquia ''probabilidad'' \<le> jerarquia (origen (probabilidades (establecerBanderaCelda True (nuevaCelda 0 0)))) \<and>
   actualizarProbabilidades 0.2 1 ''probabilidad'' (establecerBanderaCelda True (nuevaCelda 0 0))
     = establecerBanderaCelda True (nuevaCelda 0 0)"
  using actualizarProbabilidades_regla [where c = "nuevaCelda 0 0" and pm = 1 and cf = 1
      and og = "''analisis100''"]
    actualizarProbabilidades_regla [where c = "establecerBanderaCelda True (nuevaCelda 0 0)"
      and pm = "0.2" and cf = 1 and og = "''probabilidad''"]
  by (simp add: nuevaCelda_def probabilidadesIniciales_def establecerBanderaCelda_def jerarquia_def)

text \<open>
  Claim C9.  Outside the grid \<open>obtenerCelda\<close> answers \<open>null\<close> (the model's \<open>None\<close>),
  and being a read it changes nothing; a reveal outside the grid returns false and leaves
  the grid as it was.  Inside the grid, \<open>establecerValorCelda\<close> returns false and changes
  nothing when the cell is already revealed; otherwise it returns true, the cell holds
  the value and is revealed, the grid is marked dirty, the reveal counter grows by one
  and no other cell changes.
\<close>

theorem obtenerCelda_y_establecerValorCelda:
  "(\<not> esPosicionValida t f c \<longrightarrow>
      obtenerCelda t f c = None \<and> establecerValorCelda f c v t = (False, t)) \<and>
   (bienFormado t \<and> esPosicionValida t f c \<longrightarrow>
      (\<exists>celda. obtenerCelda t f c = Some celda \<and>
         (descubierta celda \<longrightarrow> establecerValorCelda f c v t = (False, t)) \<and>
         (\<not> descubierta celda \<longrightarrow>
            (\<exists>t'. establecerValorCelda f c v t = (True, t') \<and>
               obtenerCelda t' f c = Some (establecerValor v celda) \<and>
               valor (establecerValor v celda) = v \<and>
               descubierta (establecerValor v celda) \<and>
               \<not> restriccionesActualizadas t' \<and>
               contadorDescubiertas t' = contadorDescubiertas t + 1 \<and>
               bienFormado t' \<and>
               (\<forall>f' c'. (f', c') \<noteq> (f, c) \<longrightarrow> obtenerCelda t' f' c' = obtenerCelda t f' c')))))"
proof -
  have fuera: "\<not> esPosicionValida t f c \<longrightarrow>
      obtenerCelda t f c = None \<and> establecerValorCelda f c v t = (False, t)"
    by (simp add: obtenerCelda_def establecerValorCelda_def)
  have campos: "valor (establecerValor v x) = v \<and> descubierta (establecerValor v x)" for x
    by (simp add: establecerValor_def)
  have dentro: "\<exists>celda. obtenerCelda t f c = Some celda \<and>
         (descubierta celda \<longrightarrow> establecerValorCelda f c v t = (False, t)) \<and>
         (\<not> descubierta celda \<longrightarrow>
            (\<exists>t'. establecerValorCelda f c v t = (True, t') \<and>
               obtenerCelda t' f c = Some (establecerValor v celda) \<and>
               valor (establecerValor v celda) = v \<and>
               descubierta (establecerValor v celda) \<and>
               \<not> restriccionesActualizadas t' \<and>
               contadorDescubiertas t' = contadorDescubiertas t + 1 \<and>
               bienFormado t' \<and>
               (\<forall>f' c'. (f', c') \<noteq> (f, c) \<longrightarrow> obtenerCelda t' f' c' = obtenerCelda t f' c')))"
    if h: "bienFormado t \<and> esPosicionValida t f c"
  proof -
    from h have wf: "bienFormado t" and v: "esPosicionValida t f c" by simp_all
    show ?thesis
      apply (rule exI [of _ "celdas t ! nat f ! nat c"])
      using establecerValorCelda_valida(1) [OF wf v] establecerValorCelda_valida(2) [OF wf v]
        establecerValorCelda_valida(3) [OF wf v, of v] campos
      by auto
  qed
  show ?thesis using fuera dentro by blast
qed

theorem obtenerCelda_y_establecerValorCelda_witness:
  "\<not> esPosicionValida (nuevoTablero 2 2) 5 0 \<and>
   obtenerCelda (nuevoTablero 2 2) 5 0 = None \<and>
   bienFormado (nuevoTablero 2 2) \<and> esPosicionValida (nuevoTablero 2 2) 0 1 \<and>
   (\<exists>celda t'. obtenerCelda (nuevoTablero 2 2) 0 1 = Some celda \<and> \<not> descubierta celda \<and>
      establecerValorCelda 0 1 (Digito 3) (nuevoTablero 2 2) = (True, t') \<and>
      obtenerCelda t' 0 1 = Some (establecerValor (Digito 3) celda) \<and>
      \<not> restriccionesActualizadas t')"
proof -
  have nv: "\<not> esPosicionValida (nuevoTablero 2 2) 5 0"
    and v: "esPosicionValida (nuevoTablero 2 2) 0 1"
    by (simp_all add: esPosicionValida_def nuevoTablero_def)
  have nd: "\<not> descubierta (marcarCeldaEspecial 2 2 (nuevaCelda 0 1))"
    by (simp add: marcarCeldaEspecial_def nuevaCelda_def Let_def)
  show ?thesis
    using obtenerCelda_y_establecerValorCelda [of "nuevoTablero 2 2" 5 0 "Digito 3"]
      obtenerCelda_y_establecerValorCelda [of "nuevoTablero 2 2" 0 1 "Digito 3"]
      nv v nd bienFormado_nuevoTablero [of 2 2] celda_nuevo_2x2
    by auto
qed

text \<open>
  Claim C10.  Removing the flag of an unrevealed flagged cell clears the flag bit of that
  cell and nothing else in it, decrements the flag counter and leaves every other cell
  alone.  The estimate is untouched: a cell whose flag was placed by \<open>establecerBandera\<close>
  keeps probability 1, confidence 1 and provenance \<open>bandera\<close>, and is then listed by
  \<open>obtenerCeldasConCertezaDeMina\<close> as a certain mine.
\<close>

theorem establecerBandera_quitar:
  assumes wf: "bienFormado t"
    and g: "obtenerCelda t f c = Some celda"
    and nd: "\<not> descubierta celda"
    and fl: "tieneBandera celda"
  shows "\<exists>t'. establecerBandera f c False t = (True, t') \<and>
           obtenerCelda t' f c = Some (celda\<lparr>tieneBandera := False\<rparr>) \<and>
           contadorBanderas t' = contadorBanderas t - 1 \<and>
           contadorDescubiertas t' = contadorDescubiertas t \<and>
           filas t' = filas t \<and> columnas t' = columnas t \<and>
           (\<forall>f' c'. (f', c') \<noteq> (f, c) \<longrightarrow> obtenerCelda t' f' c' = obtenerCelda t f' c') \<and>
           (probabilidadMina (probabilidades celda) = 1 \<and> confianza (probabilidades celda) = 1 \<and>
            origen (probabilidades celda) = ''bandera'' \<longrightarrow>
              probabilidades (celda\<lparr>tieneBandera := False\<rparr>) = probabilidades celda \<and>
              es100PorCientoMina (celda\<lparr>tieneBandera := False\<rparr>) \<and>
              celda\<lparr>tieneBandera := False\<rparr> \<in> set (obtenerCeldasConCertezaDeMina t'))"
proof -
  let ?t' = "(modificarCelda f c (establecerBanderaCelda False) t)
               \<lparr>contadorBanderas := contadorBanderas t + (if False then 1 else - 1),
                ultimoCambio := CambioBandera f c False,
                restriccionesActualizadas := False\<rparr>"
  let ?x = "celda\<lparr>tieneBandera := False\<rparr>"
  have v: "esPosicionValida t f c" and x: "celda = celdas t ! nat f ! nat c"
    using g by (auto simp: obtenerCelda_def split: if_splits)
  have e: "establecerBandera f c False t = (True, ?t')"
    using nd fl by (simp add: establecerBandera_def g)
  have pres: "\<And>y. fila (establecerBanderaCelda False y) = fila y \<and>
                    columna (establecerBanderaCelda False y) = columna y"
    by (simp add: establecerBanderaCelda_def)
  have wf': "bienFormado ?t'"
    using wf bienFormado_modificarCelda [OF _ pres] by simp
  have get: "obtenerCelda ?t' f' c' = (if f' = f \<and> c' = c then Some ?x else obtenerCelda t f' c')"
    for f' c'
    using obtenerCelda_modificarCelda [OF wf v] by (simp add: x establecerBanderaCelda_quitar)
  have dims: "contadorBanderas ?t' = contadorBanderas t - 1"
    "contadorDescubiertas ?t' = contadorDescubiertas t" "filas ?t' = filas t" "columnas ?t' = columnas t"
    by (simp_all add: modificarCelda_def)
  have mem: "?x \<in> set (todasLasCeldas ?t')"
    using en_todasLasCeldas [OF wf', of f c ?x] get by simp
  have cert: "es100PorCientoMina ?x \<and> ?x \<in> set (obtenerCeldasConCertezaDeMina ?t')"
    if "probabilidadMina (probabilidades celda) = 1 \<and> confianza (probabilidades celda) = 1 \<and>
        origen (probabilidades celda) = ''bandera''"
    using that mem nd by (simp add: es100PorCientoMina_def obtenerCeldasConCertezaDeMina_def)
  show ?thesis
    apply (rule exI [of _ ?t'])
    using e get dims cert by auto
qed

theorem establecerBandera_quitar_witness:
  "bienFormado tableroConBandera \<and>
   (\<exists>celda t'. obtenerCelda tableroConBandera 0 1 = Some celda \<and>
      \<not> descubierta celda \<and> tieneBandera celda \<and>
      origen (probabilidades celda) = ''bandera'' \<and>
      establecerBandera 0 1 False tableroConBandera = (True, t') \<and>
      obtenerCelda t' 0 1 = Some (celda\<lparr>tieneBandera := False\<rparr>) \<and>
      contadorBanderas t' = contadorBanderas tableroConBandera - 1 \<and>
      es100PorCientoMina (celda\<lparr>tieneBandera := False\<rparr>) \<and>
      celda\<lparr>tieneBandera := False\<rparr> \<in> set (obtenerCeldasConCertezaDeMina t'))"
proof -
  let ?celda = "establecerBanderaCelda True (marcarCeldaEspecial 2 2 (nuevaCelda 0 1))"
  have props: "\<not> descubierta ?celda" "tieneBandera ?celda"
    "probabilidadMina (probabilidades ?celda) = 1" "confianza (probabilidades ?celda) = 1"
    "origen (probabilidades ?celda) = ''bandera''"
    by (simp_all add: establecerBanderaCelda_def marcarCeldaEspecial_def nuevaCelda_def Let_def)
  show ?thesis
    using establecerBandera_quitar [OF tableroConBandera_bienFormado tableroConBandera_celda
        props(1) props(2)] props tableroConBandera_bienFormado tableroConBandera_celda
    by auto
qed

text \<open>
  Claim C4.  On a fresh 8 by 8 grid the probabilities of the 64 unrevealed cells sum to
  32, the density gives 12 mines, so the normalisation applies and computes 3/16 for
  the corner cell (confidence 0, below 0.95).  The value is handed to
  \<open>actualizarProbabilidades\<close> with the cell's own confidence and the tag \<open>normalizado\<close>,
  which ranks 0, so nothing is stored: the cell keeps 1/2.
\<close>

theorem normalizarProbabilidades_no_almacena:
  "debeNormalizar (nuevoTablero 8 8) \<and>
   nuevaProb (factorEscala (nuevoTablero 8 8)) (celdas (nuevoTablero 8 8) ! 0 ! 0) = 3 / 16 \<and>
   confianza (probabilidades (celdas (nuevoTablero 8 8) ! 0 ! 0)) < 0.95 \<and>
   probabilidadMina (probabilidades (celdas (normalizarProbabilidades (nuevoTablero 8 8)) ! 0 ! 0))
     = 1 / 2"
proof -
  have c00: "celdas (nuevoTablero 8 8) ! 0 ! 0 = marcarCeldaEspecial 8 8 (nuevaCelda 0 0)"
    by (simp add: nuevoTablero_def inicializarTablero_def upt_rec)
  have cnt: "contadorBanderas (nuevoTablero 8 8) = 0"
    by (simp add: nuevoTablero_def)
  have mf: "minasFaltantesNormalizacion (nuevoTablero 8 8) = 12"
    by (simp add: minasFaltantesNormalizacion_def estimacion_8x8 cnt)
  have p00: "probabilidadMina (probabilidades (marcarCeldaEspecial 8 8 (nuevaCelda 0 0))) = 1 / 2"
    "confianza (probabilidades (marcarCeldaEspecial 8 8 (nuevaCelda 0 0))) = 0"
    by (simp_all add: marcarCeldaEspecial_def nuevaCelda_def probabilidadesIniciales_def Let_def)
  show ?thesis
    by (simp add: debeNormalizar_def factorEscala_def nuevaProb_def suma_8x8 mf
        normalizarProbabilidades_no_cambia c00 p00 probabilidadesIniciales_def)
qed

text \<open>
  Claim C8. On the 8 by 8 grid whose only revealed cell is (0,0), showing 0, the pass leaves
  every neighbour of (0,0) with mine probability 0 and confidence 1, whatever the random
  stream and the memory. The neighbours are the three cells (0,1), (1,0) and (1,1):
  (0,0) is a corner, the five other offsets fall outside the grid.
\<close>

theorem calcularProbabilidades_junto_a_cero:
  "map (\<lambda>y. (fila y, columna y, probabilidadMina (probabilidades y), confianza (probabilidades y)))
     (obtenerCeldasAdyacentes (calcularProbabilidades azar gm tableroCero) 0 0)
   = [(0, 1, 0, 1), (1, 0, 0, 1), (1, 1, 0, 1)]"
proof -
  obtain y01 y10 y11 where
    "obtenerCelda (calcularProbabilidades azar gm tableroCero) 0 1 = Some y01 \<and>
       fila y01 = 0 \<and> columna y01 = 1 \<and>
       probabilidadMina (probabilidades y01) = 0 \<and> confianza (probabilidades y01) = 1"
    "obtenerCelda (calcularProbabilidades azar gm tableroCero) 1 0 = Some y10 \<and>
       fila y10 = 1 \<and> columna y10 = 0 \<and>
       probabilidadMina (probabilidades y10) = 0 \<and> confianza (probabilidades y10) = 1"
    "obtenerCelda (calcularProbabilidades azar gm tableroCero) 1 1 = Some y11 \<and>
       fila y11 = 1 \<and> columna y11 = 1 \<and>
       probabilidadMina (probabilidades y11) = 0 \<and> confianza (probabilidades y11) = 1"
    using tableroCero_vecina [of 0 1 azar gm] tableroCero_vecina [of 1 0 azar gm]
      tableroCero_vecina [of 1 1 azar gm] by auto
  then show ?thesis
    by (simp add: obtenerCeldasAdyacentes_def desplazamientos_def tableroCero_fuera)
qed

theorem calcularProbabilidades_junto_a_cero_counterexample:
  "length (obtenerCeldasAdyacentes tableroCero 0 0) = 3 \<and>
   length (obtenerCeldasAdyacentes (calcularProbabilidades (\<lambda>n. 0) None tableroCero) 0 0) = 3"
proof -
  have r: "relTablero mismoEstado tableroCero (calcularProbabilidades (\<lambda>n. 0) None tableroCero)"
    by (rule calcularProbabilidades_estado [OF tableroCero_bienFormado])
  show ?thesis
    using list_all2_lengthD [OF relTablero_adyacentes [OF r tableroCero_bienFormado, of 0 0]]
      tableroCero_adyacentes
    by simp
qed

text \<open>
  Claim C3. Stored probabilities stay between 0 and 1. On the 8 by 8 grid with a 2 revealed at
  (0,0) and a 2 revealed at (0,2), the cell (1,0) is the only cell whose constraints are exactly
  the one of (0,0): the local stage divides the 2 remaining mines by the size 1 of its group and
  stores mine probability 2 with confidence 0.8, and no later stage of the pass overwrites it,
  whatever the random stream and the memory.
\<close>

theorem calcularProbabilidades_fuera_de_rango:
  "\<exists>y. obtenerCelda (calcularProbabilidades azar gm tableroDosDoses) 1 0 = Some y \<and>
        \<not> descubierta y \<and> probabilidadMina (probabilidades y) = 2"
proof -
  let ?t0 = "actualizarRestricciones tableroDosDoses"
  let ?t2 = "calcularProbabilidadesLocales (obtenerCeldasSinRevolar ?t0)
               (inicializarProbabilidadesBase (obtenerCeldasSinRevolar ?t0) ?t0)"
  let ?tf = "calcularProbabilidades azar gm tableroDosDoses"
  note wf = tableroDosDoses_obtener(2)
  have v: "esPosicionValida tableroDosDoses 1 0"
    by (rule obtenerCelda_valida [OF tableroDosDoses_celda])
  have x: "celdas tableroDosDoses ! nat 1 ! nat 0 = marcarCeldaEspecial 8 8 (nuevaCelda 1 0)"
    using tableroDosDoses_celda v by (simp add: obtenerCelda_def)
  have cf: "confC (celdas ?t2 ! nat 1 ! nat 0) = 0.8"
    using tableroDosDoses_local by (simp add: confC_def estimacion_def)
  have rg: "4 \<le> rangoC (celdas ?t2 ! nat 1 ! nat 0)"
    using tableroDosDoses_local by (simp add: rangoC_def jerarquia_def estimacion_def)
  have nada: "\<not> adyacenteVacia tableroDosDoses (celdas tableroDosDoses ! nat 1 ! nat 0)"
    "\<not> esquinaConUno tableroDosDoses (celdas tableroDosDoses ! nat 1 ! nat 0)"
    unfolding x by (rule tableroDosDoses_sinCasos)+
  have c: "celdas ?tf ! nat 1 ! nat 0 = celdas ?t2 ! nat 1 ! nat 0"
    by (rule calcularProbabilidades_conserva_local [OF wf v refl refl cf rg nada])
  have r: "relTablero mismoEstado tableroDosDoses ?tf"
    by (rule calcularProbabilidades_estado [OF wf])
  have vf: "esPosicionValida ?tf 1 0"
    using relTablero_valida [OF r, of 1 0] v by simp
  have "mismoEstado (celdas tableroDosDoses ! nat 1 ! nat 0) (celdas ?tf ! nat 1 ! nat 0)"
    by (rule relTablero_celda [OF r wf v])
  then have nd: "\<not> descubierta (celdas ?tf ! nat 1 ! nat 0)"
    unfolding x by (simp add: mismoEstado_def)
  have o: "obtenerCelda ?tf 1 0 = Some (celdas ?tf ! nat 1 ! nat 0)"
    using vf by (simp add: obtenerCelda_def)
  have p: "probabilidadMina (probabilidades (celdas ?t2 ! nat 1 ! nat 0)) = 2"
    using tableroDosDoses_local by (simp add: estimacion_def)
  show ?thesis
    unfolding o using nd p unfolding c by simp
qed

text \<open>
  Claim C7. The contradiction that brings the persisted counter to 3 (the third one of a
  session that starts from a fresh store) sets the change flag, which nothing but a reset of
  the memory clears, and attenuates every known-mine record: the count becomes
  \<open>max 1 (Math.floor (count * 0.7))\<close> and the recent flag is cleared.  From then on a read
  of the known-mine map reports \<open>max 1 (count div 2)\<close> for each stored count, computed on
  a copy: the read is a function of the state and returns no new state.  The reported count
  is below the stored one only when the stored one is at least 2.
\<close>

theorem registrarContradiccion_tercera:
  assumes "\<not> list_ex esReinicio (es @ es')"
    and "2 \<le> length (filter esContradiccion es)"
  shows "(contadorDe gm = 0 \<and> \<not> cambiosDetectados gm \<and> length (filter esContradiccion es) = 2
            \<longrightarrow> \<not> cambiosDetectados (fold aplicarEvento es gm)) \<and>
         cambiosDetectados (registrarContradiccion tipo (fold aplicarEvento es gm)) \<and>
         cuentas (mapaMinasConocidas (memoriaG (registrarContradiccion tipo (fold aplicarEvento es gm))))
           = map (\<lambda>kv. (max 1 (piso07 (ocurrencias (snd kv))), False))
               (mapaMinasConocidas (memoriaG (fold aplicarEvento es gm))) \<and>
         cambiosDetectados (fold aplicarEvento es' (registrarContradiccion tipo (fold aplicarEvento es gm))) \<and>
         cuentas (obtenerMapaMinasConocidas
                    (fold aplicarEvento es' (registrarContradiccion tipo (fold aplicarEvento es gm))))
           = map (\<lambda>kv. (max 1 (ocurrencias (snd kv) div 2), False))
               (mapaMinasConocidas (memoriaG
                  (fold aplicarEvento es' (registrarContradiccion tipo (fold aplicarEvento es gm)))))"
proof -
  let ?gm1 = "fold aplicarEvento es gm"
  let ?gm2 = "registrarContradiccion tipo ?gm1"
  let ?gm3 = "fold aplicarEvento es' ?gm2"
  have r: "\<not> list_ex esReinicio es" "\<not> list_ex esReinicio es'"
    using assms(1) by simp_all
  have c1: "2 \<le> contadorDe ?gm1"
    using sesion_sin_reinicio(1) [OF r(1), of gm] assms(2) by simp
  have d1: "contadorDe gm = 0 \<and> \<not> cambiosDetectados gm \<and> length (filter esContradiccion es) = 2
            \<longrightarrow> \<not> cambiosDetectados ?gm1"
    using sesion_sin_reinicio(2) [OF r(1), of gm] by simp
  have d2: "cambiosDetectados ?gm2"
    using c1 by (simp add: detectados_contradiccion)
  have d3: "cambiosDetectados ?gm3"
    using sesion_sin_reinicio(2) [OF r(2), of ?gm2] d2 by simp
  have m2: "cuentas (mapaMinasConocidas (memoriaG ?gm2))
           = map (\<lambda>kv. (max 1 (piso07 (ocurrencias (snd kv))), False))
               (mapaMinasConocidas (memoriaG ?gm1))"
    using c1 by (simp add: mapa_contradiccion cuentas_def atenuarMina_def split_def comp_def)
  have m3: "cuentas (obtenerMapaMinasConocidas ?gm3)
           = map (\<lambda>kv. (max 1 (ocurrencias (snd kv) div 2), False))
               (mapaMinasConocidas (memoriaG ?gm3))"
    using d3 by (simp add: obtenerMapaMinasConocidas_def cuentas_def reducirMina_def split_def comp_def)
  show ?thesis using d1 d2 d3 m2 m3 by blast
qed

theorem registrarContradiccion_tercera_witness:
  "\<not> list_ex esReinicio
       ([MinaEncontrada 0 0, MinaEncontrada 0 0, MinaEncontrada 0 0,
         Contradiccion ''a'', Contradiccion ''b''] @ [MinaEncontrada 1 1]) \<and>
   2 \<le> length (filter esContradiccion
       [MinaEncontrada 0 0, MinaEncontrada 0 0, MinaEncontrada 0 0,
        Contradiccion ''a'', Contradiccion ''b'']) \<and>
   \<not> cambiosDetectados (fold aplicarEvento
       [MinaEncontrada 0 0, MinaEncontrada 0 0, MinaEncontrada 0 0,
        Contradiccion ''a'', Contradiccion ''b''] (nuevoGestorMemoria memoriaInicial 0)) \<and>
   cambiosDetectados (registrarContradiccion ''c'' (fold aplicarEvento
       [MinaEncontrada 0 0, MinaEncontrada 0 0, MinaEncontrada 0 0,
        Contradiccion ''a'', Contradiccion ''b''] (nuevoGestorMemoria memoriaInicial 0))) \<and>
   cuentas (mapaMinasConocidas (memoriaG (registrarContradiccion ''c'' (fold aplicarEvento
       [MinaEncontrada 0 0, MinaEncontrada 0 0, MinaEncontrada 0 0,
        Contradiccion ''a'', Contradiccion ''b''] (nuevoGestorMemoria memoriaInicial 0)))))
     = [(2, False)] \<and>
   cambiosDetectados (fold aplicarEvento [MinaEncontrada 1 1] (registrarContradiccion ''c''
       (fold aplicarEvento
          [MinaEncontrada 0 0, MinaEncontrada 0 0, MinaEncontrada 0 0,
           Contradiccion ''a'', Contradiccion ''b''] (nuevoGestorMemoria memoriaInicial 0)))) \<and>
   cuentas (obtenerMapaMinasConocidas (fold aplicarEvento [MinaEncontrada 1 1]
       (registrarContradiccion ''c'' (fold aplicarEvento
          [MinaEncontrada 0 0, MinaEncontrada 0 0, MinaEncontrada 0 0,
           Contradiccion ''a'', Contradiccion ''b''] (nuevoGestorMemoria memoriaInicial 0)))))
     = [(1, False), (1, False)]"
proof -
  let ?es = "[MinaEncontrada 0 0, MinaEncontrada 0 0, MinaEncontrada 0 0,
              Contradiccion ''a'', Contradiccion ''b'']"
  let ?gm = "nuevoGestorMemoria memoriaInicial 0"
  have h1: "\<not> list_ex esReinicio (?es @ [MinaEncontrada 1 1])"
    by (simp add: esReinicio_def)
  have h2: "2 \<le> length (filter esContradiccion ?es)"
    "length (filter esContradiccion ?es) = 2"
    by (simp_all add: esContradiccion_def)
  have g0: "contadorDe ?gm = 0" "\<not> cambiosDetectados ?gm"
    by (simp_all add: memoria_simps)
  have s1: "map (\<lambda>kv. ocurrencias (snd kv)) (mapaMinasConocidas (memoriaG (fold aplicarEvento ?es ?gm))) = [3]"
    by (simp add: memoria_simps)
  have s3: "map (\<lambda>kv. ocurrencias (snd kv)) (mapaMinasConocidas (memoriaG
      (fold aplicarEvento [MinaEncontrada 1 1] (registrarContradiccion ''c'' (fold aplicarEvento ?es ?gm)))))
      = [2, 1]"
    by (simp add: memoria_simps)
  have e1: "map (\<lambda>kv. (max 1 (piso07 (ocurrencias (snd kv))), False))
               (mapaMinasConocidas (memoriaG (fold aplicarEvento ?es ?gm))) = [(2, False)]"
    using s1 by (auto simp: piso07_ejemplos piso07_sucesores)
  have e3: "map (\<lambda>kv. (max 1 (ocurrencias (snd kv) div 2), False))
      (mapaMinasConocidas (memoriaG
      (fold aplicarEvento [MinaEncontrada 1 1] (registrarContradiccion ''c'' (fold aplicarEvento ?es ?gm)))))
      = [(1, False), (1, False)]"
    using s3 by auto
  show ?thesis
    using registrarContradiccion_tercera [OF h1 h2(1), of ?gm "''c''"] h1 h2 g0 e1 e3
    by simp
qed

theorem registrarContradiccion_tercera_counterexample:
  "cuentas (mapaMinasConocidas (memoriaG (fold aplicarEvento [MinaEncontrada 0 0]
      (nuevoGestorMemoria memoriaInicial 0)))) = [(1, True)] \<and>
   cambiosDetectados (fold aplicarEvento
      [MinaEncontrada 0 0, Contradiccion ''a'', Contradiccion ''b'', Contradiccion ''c'']
      (nuevoGestorMemoria memoriaInicial 0)) \<and>
   cuentas (mapaMinasConocidas (memoriaG (fold aplicarEvento
      [MinaEncontrada 0 0, Contradiccion ''a'', Contradiccion ''b'', Contradiccion ''c'']
      (nuevoGestorMemoria memoriaInicial 0)))) = [(1, False)] \<and>
   cuentas (obtenerMapaMinasConocidas (fold aplicarEvento
      [MinaEncontrada 0 0, Contradiccion ''a'', Contradiccion ''b'', Contradiccion ''c'']
      (nuevoGestorMemoria memoriaInicial 0))) = [(1, False)] \<and>
   \<not> cambiosDetectados (reiniciarMemoria 1 (fold aplicarEvento
      [MinaEncontrada 0 0, Contradiccion ''a'', Contradiccion ''b'', Contradiccion ''c'']
      (nuevoGestorMemoria memoriaInicial 0)))"
  by (simp add: memoria_simps)

text \<open>
  Claim C6. A second run of the engine with no reveal in between adds no flag. On the 2 by 4
  grid with four 2s the first run returns the flags (0,0) and (0,1), found by the basic pass;
  once they are placed, the second run returns a new flag at (0,3), found by the pass of the
  linear systems: that pass keeps the flagged cells among the unknowns of its equations while
  it subtracts the flags from their right-hand sides.
\<close>

theorem colocarBanderasSeguras_segunda_vuelta:
  "lote (colocarBanderasSeguras (nuevoGestorBanderas tableroCuatroDoses))
     = Some [(0, 0, ''restriccion_basica''), (0, 1, ''restriccion_basica'')] \<and>
   lote (segundaVuelta tableroCuatroDoses) = Some [(0, 3, ''sistema_ecuaciones'')]"
  by code_simp





end
